theory Spec2Isabelle
  imports Main "HOL-Library.Multiset" "HOL-Library.List_Lexorder"
begin

section \<open>JavaScript values shared by the two routes\<close>

text \<open>
  A value thrown by JavaScript code is either an \<open>Error\<close> object, of which only the
  message is observed, or some other value, of which only its \<open>String(...)\<close> rendering is
  observed. Both routes turn a caught value into text with
  \<^verbatim>\<open>error instanceof Error ? error.message : String(error)\<close>.
\<close>

datatype thrown = JsError string | JsOther string

fun error_message :: "thrown \<Rightarrow> string" where
  "error_message (JsError m) = m"
| "error_message (JsOther s) = s"

text \<open>Lines written to the console: \<open>console.warn\<close> with one text, \<open>console.error\<close>
  with a label and the caught value.\<close>

datatype log_entry = Warn string | ErrorLog string thrown

section \<open>The D1 driver interface (db.service.ts imports it as a type)\<close>

text \<open>
  Values bound to a statement or stored in a column, and rows as the driver returns them:
  JavaScript objects, here association lists from column name to value.
\<close>

datatype sqlval = SText string | SInt int | SNull

type_synonym d1row = "(string \<times> sqlval) list"

record d1_stmt =
  stmt_sql :: string
  stmt_params :: "sqlval list"

text \<open>What \<open>all()\<close> and \<open>run()\<close> resolve to: an object whose \<open>results\<close> property may be
  missing. \<open>exec()\<close> resolves to an object with a statement count.\<close>

record d1_result =
  results :: "d1row list option"

record d1_exec_result =
  exec_count :: nat

text \<open>
  The driver is a parameter of the accessor: \<open>'s\<close> is the state of the database behind the
  handle. \<open>prepare\<close> and \<open>bind\<close> are synchronous and build a statement object (they may
  throw); \<open>run\<close>, \<open>all\<close>, \<open>first\<close> and \<open>exec\<close> talk to the database: they return a
  result or throw, and leave the database in a new state.
\<close>

record 's D1Database =
  d1_prepare :: "string \<Rightarrow> thrown + d1_stmt"
  d1_bind :: "d1_stmt \<Rightarrow> sqlval list \<Rightarrow> thrown + d1_stmt"
  d1_run :: "d1_stmt \<Rightarrow> 's \<Rightarrow> (thrown + d1_result) \<times> 's"
  d1_all :: "d1_stmt \<Rightarrow> 's \<Rightarrow> (thrown + d1_result) \<times> 's"
  d1_first :: "d1_stmt \<Rightarrow> 's \<Rightarrow> (thrown + d1row option) \<times> 's"
  d1_exec :: "string \<Rightarrow> 's \<Rightarrow> (thrown + d1_exec_result) \<times> 's"

section \<open>db.service.ts: the DatabaseService singleton\<close>

text \<open>
  The server state a request handler runs in: the private \<open>db\<close> field of the exported
  singleton \<open>dbService\<close> (it outlives a request), the state of the database itself, and
  the console.
\<close>

record 's server =
  service_db :: "'s D1Database option"
  database :: 's
  console :: "log_entry list"

text \<open>The Remix context: \<^verbatim>\<open>context?.cloudflare?.env?.DB\<close> is a handle or is missing (any
  link of the optional chain being undefined gives undefined).\<close>

record 's app_context =
  env_DB :: "'s D1Database option"

definition setDb :: "'s D1Database \<Rightarrow> 's server \<Rightarrow> 's server" where
  "setDb d sv = sv\<lparr>service_db := Some d\<rparr>"

definition initFromContext :: "'s app_context \<Rightarrow> 's server \<Rightarrow> bool \<times> 's server" where
  "initFromContext ctx sv =
     (case env_DB ctx of
        Some d \<Rightarrow> (True, sv\<lparr>service_db := Some d\<rparr>)
      | None \<Rightarrow> (False, sv))"

text \<open>
  The three accessors share one shape. The guard \<^verbatim>\<open>if (!this.db)\<close> warns and throws; the
  \<open>try\<close> block runs the driver; the \<open>catch\<close> block logs the caught value and throws it
  again. \<open>not_available\<close> is the guard, \<open>log_and_rethrow\<close> the catch block applied to
  the outcome of a try block.
\<close>

definition not_available :: "string \<Rightarrow> string \<Rightarrow> 's server \<Rightarrow> (thrown + 'a) \<times> 's server" where
  "not_available what query sv =
     (Inl (JsError ''Database not available''),
      sv\<lparr>console := console sv @ [Warn (what @ query)]\<rparr>)"

definition log_and_rethrow :: "(thrown + 'a) \<times> 's \<Rightarrow> 's server \<Rightarrow> (thrown + 'a) \<times> 's server" where
  "log_and_rethrow outcome sv =
     (case outcome of
        (Inl e, s') \<Rightarrow>
          (Inl e, sv\<lparr>database := s', console := console sv @ [ErrorLog ''Database query error:'' e]\<rparr>)
      | (Inr r, s') \<Rightarrow> (Inr r, sv\<lparr>database := s'\<rparr>))"

text \<open>\<open>executeQuery\<close> resolves to what \<open>run()\<close> or \<open>exec()\<close> resolved to.\<close>

datatype query_result = Ran d1_result | Execd d1_exec_result

definition executeQuery_try ::
  "'s D1Database \<Rightarrow> string \<Rightarrow> sqlval list \<Rightarrow> 's \<Rightarrow> (thrown + query_result) \<times> 's" where
  "executeQuery_try d query params s =
     (if length params > 0 then
        (case d1_prepare d query of
           Inl e \<Rightarrow> (Inl e, s)
         | Inr statement \<Rightarrow>
             (case d1_bind d statement params of
                Inl e \<Rightarrow> (Inl e, s)
              | Inr bound \<Rightarrow>
                  (case d1_run d bound s of
                     (Inl e, s') \<Rightarrow> (Inl e, s')
                   | (Inr r, s') \<Rightarrow> (Inr (Ran r), s'))))
      else
        (case d1_exec d query s of
           (Inl e, s') \<Rightarrow> (Inl e, s')
         | (Inr r, s') \<Rightarrow> (Inr (Execd r), s')))"

definition executeQuery ::
  "string \<Rightarrow> sqlval list \<Rightarrow> 's server \<Rightarrow> (thrown + query_result) \<times> 's server" where
  "executeQuery query params sv =
     (case service_db sv of
        None \<Rightarrow> not_available ''Attempted to execute query without database: '' query sv
      | Some d \<Rightarrow> log_and_rethrow (executeQuery_try d query params (database sv)) sv)"

definition getAllRows_try ::
  "'s D1Database \<Rightarrow> string \<Rightarrow> sqlval list \<Rightarrow> 's \<Rightarrow> (thrown + d1_result) \<times> 's" where
  "getAllRows_try d query params s =
     (case d1_prepare d query of
        Inl e \<Rightarrow> (Inl e, s)
      | Inr statement \<Rightarrow>
          (if length params > 0 then
             (case d1_bind d statement params of
                Inl e \<Rightarrow> (Inl e, s)
              | Inr bound \<Rightarrow> d1_all d bound s)
           else d1_all d statement s))"

definition getAllRows ::
  "string \<Rightarrow> sqlval list \<Rightarrow> 's server \<Rightarrow> (thrown + d1_result) \<times> 's server" where
  "getAllRows query params sv =
     (case service_db sv of
        None \<Rightarrow> not_available ''Attempted to get all rows without database: '' query sv
      | Some d \<Rightarrow> log_and_rethrow (getAllRows_try d query params (database sv)) sv)"

definition getFirstRow_try ::
  "'s D1Database \<Rightarrow> string \<Rightarrow> sqlval list \<Rightarrow> 's \<Rightarrow> (thrown + d1row option) \<times> 's" where
  "getFirstRow_try d query params s =
     (case d1_prepare d query of
        Inl e \<Rightarrow> (Inl e, s)
      | Inr statement \<Rightarrow>
          (if length params > 0 then
             (case d1_bind d statement params of
                Inl e \<Rightarrow> (Inl e, s)
              | Inr bound \<Rightarrow> d1_first d bound s)
           else d1_first d statement s))"

definition getFirstRow ::
  "string \<Rightarrow> sqlval list \<Rightarrow> 's server \<Rightarrow> (thrown + d1row option) \<times> 's server" where
  "getFirstRow query params sv =
     (case service_db sv of
        None \<Rightarrow> not_available ''Attempted to get first row without database: '' query sv
      | Some d \<Rightarrow> log_and_rethrow (getFirstRow_try d query params (database sv)) sv)"

section \<open>app.d1example.tsx: loader and action\<close>

text \<open>
  A request as the handlers see it: the parsed form (\<open>FormData.get\<close> returns the first
  entry of a name, or null), whose entries are strings or files. Authentication
  (\<^verbatim>\<open>authenticate.admin\<close>, of shopify.server) is a parameter \<open>auth\<close> of both handlers: it
  returns or throws, and what it throws leaves the handler uncaught.
\<close>

datatype form_value = FString string | FFile

record request =
  form :: "(string \<times> form_value) list"

definition formData_get :: "request \<Rightarrow> string \<Rightarrow> form_value option" where
  "formData_get req name = map_of (form req) name"

text \<open>\<open>isChecked\<close> of the read payload is \<^verbatim>\<open>result && result.value === "true"\<close>: null when
  no row was found (null is falsy and \<open>&&\<close> returns it), a boolean otherwise.\<close>

datatype js_checked = JNull | JBool bool

record loader_payload =
  lp_isChecked :: js_checked
  lp_settingsTableName :: string
  lp_dbAvailable :: bool
  lp_allSettings :: "d1row list"
  lp_error :: "string option"

record action_payload =
  ap_success :: bool
  ap_isChecked :: "bool option"
  ap_allSettings :: "d1row list option"
  ap_error :: "string option"

definition create_table_sql :: "string \<Rightarrow> string" where
  "create_table_sql t =
     ''CREATE TABLE IF NOT EXISTS '' @ t @ '' (key TEXT PRIMARY KEY, value TEXT, updated_at INTEGER)''"

definition select_value_sql :: "string \<Rightarrow> string" where
  "select_value_sql t = ''SELECT value FROM '' @ t @ '' WHERE key = ?''"

definition select_all_sql :: "string \<Rightarrow> string" where
  "select_all_sql t = ''SELECT key, value, updated_at FROM '' @ t"

definition upsert_sql :: "string \<Rightarrow> string" where
  "upsert_sql t = ''INSERT OR REPLACE INTO '' @ t @ '' (key, value, updated_at) VALUES (?, ?, ?)''"

text \<open>\<^verbatim>\<open>allSettings.results || []\<close>: an array, even an empty one, is truthy.\<close>

definition results_or_empty :: "d1_result \<Rightarrow> d1row list" where
  "results_or_empty r = (case results r of Some rows \<Rightarrow> rows | None \<Rightarrow> [])"

definition coerce_checked :: "d1row option \<Rightarrow> js_checked" where
  "coerce_checked result =
     (case result of
        None \<Rightarrow> JNull
      | Some row \<Rightarrow> JBool (map_of row ''value'' = Some (SText ''true'')))"

text \<open>The \<open>try\<close> block of the loader: the first accessor that throws ends it.\<close>

definition loader_try :: "string \<Rightarrow> 's server \<Rightarrow> (thrown + loader_payload) \<times> 's server" where
  "loader_try settingsTableName sv =
     (case executeQuery (create_table_sql settingsTableName) [] sv of
        (Inl e, sv1) \<Rightarrow> (Inl e, sv1)
      | (Inr _, sv1) \<Rightarrow>
          (case getFirstRow (select_value_sql settingsTableName) [SText ''test_checkbox''] sv1 of
             (Inl e, sv2) \<Rightarrow> (Inl e, sv2)
           | (Inr result, sv2) \<Rightarrow>
               (case getAllRows (select_all_sql settingsTableName) [] sv2 of
                  (Inl e, sv3) \<Rightarrow> (Inl e, sv3)
                | (Inr allSettings, sv3) \<Rightarrow>
                    (Inr \<lparr>lp_isChecked = coerce_checked result,
                          lp_settingsTableName = settingsTableName,
                          lp_dbAvailable = True,
                          lp_allSettings = results_or_empty allSettings,
                          lp_error = None\<rparr>, sv3))))"

definition loader ::
  "(request \<Rightarrow> thrown + unit) \<Rightarrow> request \<Rightarrow> 's app_context \<Rightarrow> 's server
     \<Rightarrow> (thrown + loader_payload) \<times> 's server" where
  "loader auth req ctx sv =
     (case auth req of
        Inl e \<Rightarrow> (Inl e, sv)
      | Inr _ \<Rightarrow>
          (case initFromContext ctx sv of
             (dbAvailable, sv0) \<Rightarrow>
               (let settingsTableName = ''example_table'' in
                if dbAvailable then
                  (case loader_try settingsTableName sv0 of
                     (Inr payload, sv1) \<Rightarrow> (Inr payload, sv1)
                   | (Inl e, sv1) \<Rightarrow>
                       (Inr \<lparr>lp_isChecked = JBool False,
                             lp_settingsTableName = settingsTableName,
                             lp_dbAvailable = False,
                             lp_allSettings = [],
                             lp_error = Some (error_message e)\<rparr>,
                        sv1\<lparr>console := console sv1 @ [ErrorLog ''Database error:'' e]\<rparr>))
                else
                  (Inr \<lparr>lp_isChecked = JBool False,
                        lp_settingsTableName = settingsTableName,
                        lp_dbAvailable = False,
                        lp_allSettings = [],
                        lp_error = None\<rparr>, sv0))))"

text \<open>\<^verbatim>\<open>isChecked ? "true" : "false"\<close>, also what \<open>checked.toString()\<close> gives in the view.\<close>

definition bool_string :: "bool \<Rightarrow> string" where
  "bool_string b = (if b then ''true'' else ''false'')"

text \<open>The \<open>try\<close> block of the action; \<open>now\<close> is what \<open>Date.now()\<close> returns.\<close>

definition action_try :: "string \<Rightarrow> bool \<Rightarrow> int \<Rightarrow> 's server \<Rightarrow> (thrown + action_payload) \<times> 's server" where
  "action_try tableName isChecked now sv =
     (case executeQuery (upsert_sql tableName)
             [SText ''test_checkbox'', SText (bool_string isChecked), SInt now] sv of
        (Inl e, sv1) \<Rightarrow> (Inl e, sv1)
      | (Inr _, sv1) \<Rightarrow>
          (case getAllRows (select_all_sql tableName) [] sv1 of
             (Inl e, sv2) \<Rightarrow> (Inl e, sv2)
           | (Inr allSettings, sv2) \<Rightarrow>
               (Inr \<lparr>ap_success = True,
                     ap_isChecked = Some isChecked,
                     ap_allSettings = Some (results_or_empty allSettings),
                     ap_error = None\<rparr>, sv2)))"

definition action ::
  "(request \<Rightarrow> thrown + unit) \<Rightarrow> request \<Rightarrow> 's app_context \<Rightarrow> int \<Rightarrow> 's server
     \<Rightarrow> (thrown + action_payload) \<times> 's server" where
  "action auth req ctx now sv =
     (case auth req of
        Inl e \<Rightarrow> (Inl e, sv)
      | Inr _ \<Rightarrow>
          (if formData_get req ''action'' = Some (FString ''updateSettings'') then
             (let isChecked = (formData_get req ''isChecked'' = Some (FString ''true''));
                  tableName = ''example_table''
              in case initFromContext ctx sv of
                   (dbAvailable, sv0) \<Rightarrow>
                     (if dbAvailable then
                        (case action_try tableName isChecked now sv0 of
                           (Inr payload, sv1) \<Rightarrow> (Inr payload, sv1)
                         | (Inl e, sv1) \<Rightarrow>
                             (Inr \<lparr>ap_success = False, ap_isChecked = None,
                                   ap_allSettings = None,
                                   ap_error = Some (error_message e)\<rparr>,
                              sv1\<lparr>console := console sv1 @ [ErrorLog ''Database error saving setting:'' e]\<rparr>))
                      else
                        (Inr \<lparr>ap_success = False, ap_isChecked = None,
                              ap_allSettings = None,
                              ap_error = Some ''Database not available''\<rparr>, sv0)))
           else
             (Inr \<lparr>ap_success = False, ap_isChecked = None,
                   ap_allSettings = None,
                   ap_error = Some ''Unknown action''\<rparr>, sv)))"

section \<open>app.d1example.tsx: the settings view (component Index)\<close>

text \<open>
  The local state of the component (\<open>useState\<close>), what it knows of its fetcher, and what it
  has sent out: the forms handed to \<open>fetcher.submit\<close> and the toasts shown.
\<close>

datatype fetcher_phase = Idle | Submitting

record settings_view =
  checkboxState :: js_checked
  saveError :: string
  tableData :: "d1row list"
  view_dbAvailable :: bool
  fetcher_data :: "action_payload option"
  fetcher_state :: fetcher_phase
  submitted_forms :: "(string \<times> form_value) list list"
  view_toasts :: "string list"

text \<open>The effect on \<open>fetcher.data\<close>: a non-empty string is truthy, an array always is.\<close>

definition fetcher_effect :: "settings_view \<Rightarrow> settings_view" where
  "fetcher_effect v =
     (let v1 = (case fetcher_data v of
                  Some d \<Rightarrow>
                    (case ap_error d of
                       Some e \<Rightarrow> (if \<not> ap_success d \<and> e \<noteq> [] then v\<lparr>saveError := e\<rparr>
                                  else v\<lparr>saveError := []\<rparr>)
                     | None \<Rightarrow> v\<lparr>saveError := []\<rparr>)
                | None \<Rightarrow> v\<lparr>saveError := []\<rparr>)
      in (case fetcher_data v of
            Some d \<Rightarrow>
              (case ap_allSettings d of
                 Some rows \<Rightarrow> (if ap_success d then v1\<lparr>tableData := rows\<rparr> else v1)
               | None \<Rightarrow> v1)
          | None \<Rightarrow> v1))"

text \<open>Mounting: the state is initialised from the loader's payload and the effect runs once.\<close>

definition mount_view :: "loader_payload \<Rightarrow> settings_view" where
  "mount_view p =
     fetcher_effect
       \<lparr>checkboxState = lp_isChecked p, saveError = [], tableData = lp_allSettings p,
        view_dbAvailable = lp_dbAvailable p, fetcher_data = None, fetcher_state = Idle,
        submitted_forms = [], view_toasts = []\<rparr>"

definition handleCheckboxChange :: "bool \<Rightarrow> settings_view \<Rightarrow> settings_view" where
  "handleCheckboxChange checked v =
     (let v1 = v\<lparr>checkboxState := JBool checked\<rparr> in
      if view_dbAvailable v1 then
        (let formData = [(''action'', FString ''updateSettings''),
                         (''isChecked'', FString (bool_string checked))];
             v2 = v1\<lparr>submitted_forms := submitted_forms v1 @ [formData],
                     fetcher_state := Submitting\<rparr>
         in if (case fetcher_data v2 of None \<Rightarrow> True | Some d \<Rightarrow> ap_success d)
            then v2\<lparr>view_toasts := view_toasts v2 @ [''Setting saved'']\<rparr>
            else v2)
      else v1\<lparr>view_toasts := view_toasts v1 @ [''Database not available, setting not saved'']\<rparr>)"

text \<open>The write's response arrives: \<open>fetcher.data\<close> changes, the fetcher is idle again, and
  the effect runs.\<close>

definition receive_response :: "action_payload \<Rightarrow> settings_view \<Rightarrow> settings_view" where
  "receive_response d v = fetcher_effect (v\<lparr>fetcher_data := Some d, fetcher_state := Idle\<rparr>)"

text \<open>A run of responses handled one after the other.\<close>

fun receive_all :: "action_payload list \<Rightarrow> settings_view \<Rightarrow> settings_view" where
  "receive_all [] v = v"
| "receive_all (d # ds) v = receive_all ds (receive_response d v)"

section \<open>app.web-components.tsx: the component gallery\<close>

text \<open>
  Strings of the gallery are sequences of UTF-16 code units, which is what \<open>trim\<close> and the
  relational operators of JavaScript work on. \<open>lit\<close> is an ASCII literal of the source.
\<close>

type_synonym jsstring = "nat list"

definition lit :: "string \<Rightarrow> jsstring" where
  "lit s = map of_char s"

text \<open>White space and line terminators, the code units \<open>String.prototype.trim\<close> removes.\<close>

definition is_js_whitespace :: "nat \<Rightarrow> bool" where
  "is_js_whitespace c \<longleftrightarrow>
     c = 9 \<or> c = 10 \<or> c = 11 \<or> c = 12 \<or> c = 13 \<or> c = 32 \<or> c = 160 \<or> c = 5760 \<or>
     (8192 \<le> c \<and> c \<le> 8202) \<or> c = 8232 \<or> c = 8233 \<or> c = 8239 \<or> c = 8287 \<or>
     c = 12288 \<or> c = 65279"

definition js_trim :: "jsstring \<Rightarrow> jsstring" where
  "js_trim s = rev (dropWhile is_js_whitespace (rev (dropWhile is_js_whitespace s)))"

text \<open>The decimal digits of a number, for the template literal around \<open>Date.now()\<close>.\<close>

fun decimal :: "nat \<Rightarrow> jsstring" where
  "decimal n = (if n < 10 then [48 + n] else decimal (n div 10) @ [48 + n mod 10])"

declare decimal.simps [simp del]

record status_entry =
  entry_id :: jsstring
  entry_name :: jsstring
  entry_status :: jsstring
  entry_time :: jsstring

record submitted_name =
  sn_name :: jsstring
  sn_time :: jsstring

datatype direction = Asc | Desc

record sort_config =
  cfg_key :: "string option"
  cfg_direction :: direction

record toast =
  toast_message :: string
  toast_duration :: nat
  toast_tone :: "string option"

text \<open>
  The state of the view: the eight \<open>useState\<close> cells, and of the page around it the modal
  element (absent, or present and shown or hidden), whether \<^verbatim>\<open>window.shopify?.toast\<close> exists,
  and the toasts shown so far.
\<close>

record gallery =
  showBanner :: bool
  toastChecked :: bool
  submittedNames :: "submitted_name list"
  nameInputValue :: jsstring
  showSpinner :: bool
  buttonLoading :: bool
  componentStatusData :: "status_entry list"
  sortConfig :: sort_config
  modal_shown :: "bool option"
  toast_api :: bool
  toasts :: "toast list"

definition initial_sortConfig :: sort_config where
  "initial_sortConfig = \<lparr>cfg_key = None, cfg_direction = Asc\<rparr>"

definition initial_componentStatusData :: "jsstring \<Rightarrow> status_entry list" where
  "initial_componentStatusData t =
     [\<lparr>entry_id = lit ''banner'', entry_name = lit ''Banner Notification'',
       entry_status = lit ''Inactive'', entry_time = t\<rparr>,
      \<lparr>entry_id = lit ''toast'', entry_name = lit ''Toast Notification'',
       entry_status = lit ''Inactive'', entry_time = t\<rparr>,
      \<lparr>entry_id = lit ''modal'', entry_name = lit ''Name Form Modal'',
       entry_status = lit ''Inactive'', entry_time = t\<rparr>]"

subsection \<open>Sorting the status table\<close>

definition handleSort :: "string \<Rightarrow> sort_config \<Rightarrow> sort_config" where
  "handleSort key cfg =
     (let direction = (if cfg_key cfg = Some key \<and> cfg_direction cfg = Asc then Desc else Asc)
      in \<lparr>cfg_key = Some key, cfg_direction = direction\<rparr>)"

text \<open>The icon of a column header shows the sort state of that column.\<close>

datatype sort_icon = Select | ArrowUp | ArrowDown

definition getSortIcon :: "string \<Rightarrow> sort_config \<Rightarrow> sort_icon" where
  "getSortIcon columnKey cfg =
     (if cfg_key cfg \<noteq> Some columnKey then Select
      else if cfg_direction cfg = Asc then ArrowUp else ArrowDown)"

text \<open>\<^verbatim>\<open>a[sortConfig.key]\<close>: a property of the entry, or undefined.\<close>

definition entry_field :: "string \<Rightarrow> status_entry \<Rightarrow> jsstring option" where
  "entry_field k e =
     (if k = ''id'' then Some (entry_id e)
      else if k = ''name'' then Some (entry_name e)
      else if k = ''status'' then Some (entry_status e)
      else if k = ''time'' then Some (entry_time e)
      else None)"

text \<open>\<open><\<close> of JavaScript on two strings compares code units lexicographically; with
  undefined on a side it is false.\<close>

fun js_lt :: "jsstring option \<Rightarrow> jsstring option \<Rightarrow> bool" where
  "js_lt (Some x) (Some y) = (x < y)"
| "js_lt _ _ = False"

definition compare_entries :: "string \<Rightarrow> direction \<Rightarrow> status_entry \<Rightarrow> status_entry \<Rightarrow> int" where
  "compare_entries k dir a b =
     (if js_lt (entry_field k a) (entry_field k b) then (if dir = Asc then - 1 else 1)
      else if js_lt (entry_field k b) (entry_field k a) then (if dir = Asc then 1 else - 1)
      else 0)"

text \<open>
  \<open>Array.prototype.sort\<close> with a comparator, as the language defines it: the result is
  ordered by the comparator and the sort is stable. The model is insertion sort, each element
  going in front of the first later element it does not compare greater than.
\<close>

fun sort_insert :: "('a \<Rightarrow> 'a \<Rightarrow> int) \<Rightarrow> 'a \<Rightarrow> 'a list \<Rightarrow> 'a list" where
  "sort_insert cmp x [] = [x]"
| "sort_insert cmp x (y # ys) = (if cmp x y \<le> 0 then x # y # ys else y # sort_insert cmp x ys)"

fun array_sort :: "('a \<Rightarrow> 'a \<Rightarrow> int) \<Rightarrow> 'a list \<Rightarrow> 'a list" where
  "array_sort cmp [] = []"
| "array_sort cmp (x # xs) = sort_insert cmp x (array_sort cmp xs)"

text \<open>
  \<open>sort\<close> works in place, so arrays live in a store: a reference is an address, the spread
  \<^verbatim>\<open>[...xs]\<close> allocates a copy, and \<open>sort\<close> overwrites the array it is called on and returns
  the same reference.
\<close>

record array_store =
  cells :: "nat \<Rightarrow> status_entry list option"
  next_ref :: nat

definition read_array :: "array_store \<Rightarrow> nat \<Rightarrow> status_entry list" where
  "read_array h r = (case cells h r of Some xs \<Rightarrow> xs | None \<Rightarrow> [])"

definition spread_copy :: "nat \<Rightarrow> array_store \<Rightarrow> nat \<times> array_store" where
  "spread_copy r h =
     (next_ref h, h\<lparr>cells := (cells h)(next_ref h := Some (read_array h r)),
                    next_ref := Suc (next_ref h)\<rparr>)"

definition sort_in_place ::
  "(status_entry \<Rightarrow> status_entry \<Rightarrow> int) \<Rightarrow> nat \<Rightarrow> array_store \<Rightarrow> nat \<times> array_store" where
  "sort_in_place cmp r h = (r, h\<lparr>cells := (cells h)(r := Some (array_sort cmp (read_array h r)))\<rparr>)"

text \<open>The memoised view; \<^verbatim>\<open>!sortConfig.key\<close> holds for null and for the empty string.\<close>

definition sortedComponentStatusData :: "sort_config \<Rightarrow> nat \<Rightarrow> array_store \<Rightarrow> nat \<times> array_store" where
  "sortedComponentStatusData cfg componentStatusData_ref h =
     (case cfg_key cfg of
        None \<Rightarrow> (componentStatusData_ref, h)
      | Some k \<Rightarrow>
          (if k = [] then (componentStatusData_ref, h)
           else (case spread_copy componentStatusData_ref h of
                   (copy, h1) \<Rightarrow> sort_in_place (compare_entries k (cfg_direction cfg)) copy h1)))"

subsection \<open>The status log and the modal form\<close>

definition updateComponentStatus :: "jsstring \<Rightarrow> jsstring \<Rightarrow> jsstring \<Rightarrow> gallery \<Rightarrow> gallery" where
  "updateComponentStatus ident status time_now g =
     g\<lparr>componentStatusData :=
         map (\<lambda>item. if entry_id item = ident
                     then item\<lparr>entry_status := status, entry_time := time_now\<rparr>
                     else item)
             (componentStatusData g)\<rparr>"

definition addSubmittedNameToComponentStatus :: "jsstring \<Rightarrow> jsstring \<Rightarrow> nat \<Rightarrow> gallery \<Rightarrow> gallery" where
  "addSubmittedNameToComponentStatus name time_shown date_now g =
     (let newEntry = \<lparr>entry_id = lit ''submitted-'' @ decimal date_now,
                      entry_name = lit ''Submitted Name: '' @ name,
                      entry_status = lit ''Submitted'',
                      entry_time = time_shown\<rparr>
      in g\<lparr>componentStatusData := componentStatusData g @ [newEntry]\<rparr>)"

definition handleNameChange :: "jsstring \<Rightarrow> gallery \<Rightarrow> gallery" where
  "handleNameChange v g = g\<lparr>nameInputValue := v\<rparr>"

text \<open>\<^verbatim>\<open>if (modal) modal.hide()\<close>; the \<open>hide\<close> event the element then emits reaches its
  listener as a later step of its own.\<close>

definition modal_hide :: "gallery \<Rightarrow> gallery" where
  "modal_hide g = (case modal_shown g of None \<Rightarrow> g | Some _ \<Rightarrow> g\<lparr>modal_shown := Some False\<rparr>)"

definition toast_show :: "toast \<Rightarrow> gallery \<Rightarrow> gallery" where
  "toast_show t g = (if toast_api g then g\<lparr>toasts := toasts g @ [t]\<rparr> else g)"

text \<open>\<open>currentTime\<close> is \<^verbatim>\<open>new Date().toLocaleTimeString()\<close>, \<open>date_now\<close> is \<open>Date.now()\<close>.
  The empty string is falsy.\<close>

definition handleSave :: "jsstring \<Rightarrow> nat \<Rightarrow> gallery \<Rightarrow> gallery" where
  "handleSave currentTime date_now g =
     (if nameInputValue g \<noteq> [] \<and> js_trim (nameInputValue g) \<noteq> [] then
        (let newName = js_trim (nameInputValue g);
             g1 = g\<lparr>submittedNames := submittedNames g @ [\<lparr>sn_name = newName, sn_time = currentTime\<rparr>]\<rparr>;
             g2 = addSubmittedNameToComponentStatus newName currentTime date_now g1;
             g3 = g2\<lparr>nameInputValue := []\<rparr>
         in modal_hide g3)
      else
        toast_show \<lparr>toast_message = ''Please enter a name before saving'',
                    toast_duration = 2000, toast_tone = Some ''critical''\<rparr> g)"

definition handleCancel :: "gallery \<Rightarrow> gallery" where
  "handleCancel g = modal_hide (g\<lparr>nameInputValue := []\<rparr>)"

section \<open>The database behind the settings table\<close>

text \<open>
  Modelled from the spec: the D1 database engine, which is not part of the repository. The
  specification gives the table \<open>example_table(key TEXT PRIMARY KEY, value TEXT, updated_at
  INTEGER)\<close>, created lazily, and an upsert that is an insert-or-replace keyed by the unique
  column. The engine below answers the four statements the settings route issues, on a
  database that either has no such table yet or holds its rows in insertion order; on any
  other statement, and on a statement against the missing table, it throws.
\<close>

record setting =
  setting_key :: string
  setting_value :: string
  updated_at :: int

type_synonym example_db = "setting list option"

definition row_of_setting :: "setting \<Rightarrow> d1row" where
  "row_of_setting r =
     [(''key'', SText (setting_key r)), (''value'', SText (setting_value r)),
      (''updated_at'', SInt (updated_at r))]"

definition upsert :: "setting \<Rightarrow> setting list \<Rightarrow> setting list" where
  "upsert r rows = filter (\<lambda>x. setting_key x \<noteq> setting_key r) rows @ [r]"

definition no_such_table :: thrown where
  "no_such_table = JsError ''D1_ERROR: no such table: example_table''"

definition unsupported :: thrown where
  "unsupported = JsError ''D1_ERROR: statement outside the model''"

definition engine_exec :: "string \<Rightarrow> example_db \<Rightarrow> (thrown + d1_exec_result) \<times> example_db" where
  "engine_exec q db =
     (if q = create_table_sql ''example_table'' then
        (Inr \<lparr>exec_count = 1\<rparr>, (case db of None \<Rightarrow> Some [] | Some rows \<Rightarrow> Some rows))
      else (Inl unsupported, db))"

definition engine_run :: "d1_stmt \<Rightarrow> example_db \<Rightarrow> (thrown + d1_result) \<times> example_db" where
  "engine_run st db =
     (if stmt_sql st = upsert_sql ''example_table'' then
        (case stmt_params st of
           [SText k, SText v, SInt t] \<Rightarrow>
             (case db of
                None \<Rightarrow> (Inl no_such_table, db)
              | Some rows \<Rightarrow>
                  (Inr \<lparr>results = Some []\<rparr>,
                   Some (upsert \<lparr>setting_key = k, setting_value = v, updated_at = t\<rparr> rows)))
         | _ \<Rightarrow> (Inl unsupported, db))
      else (Inl unsupported, db))"

definition engine_first :: "d1_stmt \<Rightarrow> example_db \<Rightarrow> (thrown + d1row option) \<times> example_db" where
  "engine_first st db =
     (if stmt_sql st = select_value_sql ''example_table'' then
        (case stmt_params st of
           [SText k] \<Rightarrow>
             (case db of
                None \<Rightarrow> (Inl no_such_table, db)
              | Some rows \<Rightarrow>
                  (Inr (case filter (\<lambda>r. setting_key r = k) rows of
                          [] \<Rightarrow> None
                        | r # _ \<Rightarrow> Some [(''value'', SText (setting_value r))]), db))
         | _ \<Rightarrow> (Inl unsupported, db))
      else (Inl unsupported, db))"

definition engine_all :: "d1_stmt \<Rightarrow> example_db \<Rightarrow> (thrown + d1_result) \<times> example_db" where
  "engine_all st db =
     (if stmt_sql st = select_all_sql ''example_table'' \<and> stmt_params st = [] then
        (case db of
           None \<Rightarrow> (Inl no_such_table, db)
         | Some rows \<Rightarrow> (Inr \<lparr>results = Some (map row_of_setting rows)\<rparr>, db))
      else (Inl unsupported, db))"

definition d1_engine :: "example_db D1Database" where
  "d1_engine =
     \<lparr>d1_prepare = (\<lambda>q. Inr \<lparr>stmt_sql = q, stmt_params = []\<rparr>),
      d1_bind = (\<lambda>st ps. Inr (st\<lparr>stmt_params := ps\<rparr>)),
      d1_run = engine_run,
      d1_all = engine_all,
      d1_first = engine_first,
      d1_exec = engine_exec\<rparr>"

text \<open>A run of writes through the action, each with its flag and its time, every request
  authenticated and carrying the handle.\<close>

definition write_request :: "string \<Rightarrow> request" where
  "write_request v = \<lparr>form = [(''action'', FString ''updateSettings''), (''isChecked'', FString v)]\<rparr>"

definition auth_ok :: "request \<Rightarrow> thrown + unit" where
  "auth_ok req = Inr ()"

fun writes :: "(bool \<times> int) list \<Rightarrow> example_db server \<Rightarrow> example_db server" where
  "writes [] sv = sv"
| "writes ((b, t) # ws) sv =
     writes ws (snd (action auth_ok (write_request (bool_string b)) \<lparr>env_DB = Some d1_engine\<rparr> t sv))"

text \<open>At most one row per key.\<close>

definition one_row_per_key :: "example_db \<Rightarrow> bool" where
  "one_row_per_key db = (case db of None \<Rightarrow> True | Some rows \<Rightarrow> distinct (map setting_key rows))"

definition rows_of :: "example_db \<Rightarrow> setting list" where
  "rows_of db = (case db of None \<Rightarrow> [] | Some rows \<Rightarrow> rows)"

section \<open>Facts about the accessor and the engine\<close>

lemmas accessor_defs = executeQuery_def getAllRows_def getFirstRow_def not_available_def
  log_and_rethrow_def executeQuery_try_def getAllRows_try_def getFirstRow_try_def

lemmas engine_defs = d1_engine_def engine_run_def engine_all_def engine_first_def engine_exec_def

lemma engine_write:
  "action_try ''example_table'' b now \<lparr>service_db = Some d1_engine, database = Some rows, console = c\<rparr> =
    (Inr \<lparr>ap_success = True, ap_isChecked = Some b,
          ap_allSettings = Some (map row_of_setting
             (upsert \<lparr>setting_key = ''test_checkbox'', setting_value = bool_string b, updated_at = now\<rparr> rows)),
          ap_error = None\<rparr>,
     \<lparr>service_db = Some d1_engine,
      database = Some (upsert \<lparr>setting_key = ''test_checkbox'', setting_value = bool_string b, updated_at = now\<rparr> rows),
      console = c\<rparr>)"
  by (simp add: action_try_def accessor_defs engine_defs results_or_empty_def)

lemma engine_write_no_table:
  "action_try ''example_table'' b now \<lparr>service_db = Some d1_engine, database = None, console = c\<rparr> =
    (Inl no_such_table,
     \<lparr>service_db = Some d1_engine, database = None,
      console = c @ [ErrorLog ''Database query error:'' no_such_table]\<rparr>)"
  by (simp add: action_try_def accessor_defs engine_defs results_or_empty_def)

lemma engine_read:
  "loader_try ''example_table'' \<lparr>service_db = Some d1_engine, database = db, console = c\<rparr> =
    (Inr \<lparr>lp_isChecked =
            (case filter (\<lambda>r. setting_key r = ''test_checkbox'') (rows_of db) of
               [] \<Rightarrow> JNull | r # _ \<Rightarrow> JBool (setting_value r = ''true'')),
          lp_settingsTableName = ''example_table'', lp_dbAvailable = True,
          lp_allSettings = map row_of_setting (rows_of db), lp_error = None\<rparr>,
     \<lparr>service_db = Some d1_engine, database = Some (rows_of db), console = c\<rparr>)"
  by (cases db)
     (simp_all add: loader_try_def accessor_defs engine_defs results_or_empty_def rows_of_def
        coerce_checked_def split: list.split)


lemma upsert_distinct:
  "distinct (map setting_key rows) \<Longrightarrow> distinct (map setting_key (upsert r rows))"
  by (auto simp: upsert_def distinct_map_filter)

lemma upsert_same_key:
  "filter (\<lambda>x. setting_key x = setting_key r) (upsert r rows) = [r]"
proof -
  have "filter (\<lambda>x. setting_key x = setting_key r)
          (filter (\<lambda>x. setting_key x \<noteq> setting_key r) rows) = []"
    by (induction rows) auto
  then show ?thesis by (simp add: upsert_def)
qed

lemma upsert_other_key:
  "k \<noteq> setting_key r \<Longrightarrow>
     filter (\<lambda>x. setting_key x = k) (upsert r rows) = filter (\<lambda>x. setting_key x = k) rows"
  by (induction rows) (auto simp: upsert_def)

lemma upsert_keeps_keys:
  "setting_key ` set rows \<subseteq> setting_key ` set (upsert r rows)"
  by (auto simp: upsert_def)

lemma action_engine_database:
  "database (snd (action auth req \<lparr>env_DB = Some d1_engine\<rparr> now sv)) =
     (if \<not> isl (auth req) \<and> formData_get req ''action'' = Some (FString ''updateSettings'')
      then (case database sv of
              None \<Rightarrow> None
            | Some rows \<Rightarrow>
                Some (upsert \<lparr>setting_key = ''test_checkbox'',
                              setting_value = bool_string (formData_get req ''isChecked'' = Some (FString ''true'')),
                              updated_at = now\<rparr> rows))
      else database sv)"
proof (cases sv)
  case (fields sd db c)
  show ?thesis
    by (cases "auth req"; cases db)
       (simp_all add: fields action_def initFromContext_def engine_write engine_write_no_table Let_def)
qed

lemma loader_engine_database:
  "database (snd (loader auth req \<lparr>env_DB = Some d1_engine\<rparr> sv)) =
     (if isl (auth req) then database sv else Some (rows_of (database sv)))"
proof (cases sv)
  case (fields sd db c)
  show ?thesis
    by (cases "auth req")
       (simp_all add: fields loader_def initFromContext_def engine_read)
qed

lemma action_absent_database:
  "database (snd (action auth req \<lparr>env_DB = None\<rparr> now sv)) = database sv"
  by (cases "auth req") (simp_all add: action_def initFromContext_def Let_def)

lemma loader_absent_database:
  "database (snd (loader auth req \<lparr>env_DB = None\<rparr> sv)) = database sv"
  by (cases "auth req") (simp_all add: loader_def initFromContext_def)

lemma write_request_fields:
  "formData_get (write_request v) ''action'' = Some (FString ''updateSettings'')"
  "formData_get (write_request v) ''isChecked'' = Some (FString v)"
  by (simp_all add: write_request_def formData_get_def)

lemma bool_string_true: "(bool_string b = ''true'') = b"
  by (simp add: bool_string_def)

lemma writes_append: "writes (ws @ vs) sv = writes vs (writes ws sv)"
  by (induction ws arbitrary: sv) auto

lemma writes_table_exists:
  "database sv \<noteq> None \<Longrightarrow> database (writes ws sv) \<noteq> None"
proof (induction ws arbitrary: sv)
  case Nil
  then show ?case by simp
next
  case (Cons w ws)
  obtain b t where w: "w = (b, t)" by (cases w)
  from Cons.prems have
    "database (snd (action auth_ok (write_request (bool_string b)) \<lparr>env_DB = Some d1_engine\<rparr> t sv)) \<noteq> None"
    by (auto simp: action_engine_database split: option.splits)
  then show ?case using Cons.IH by (simp add: w)
qed


lemma action_engine_success:
  assumes "auth req = Inr ()"
    and "formData_get req ''action'' = Some (FString ''updateSettings'')"
    and "database sv = Some rows"
  shows "action auth req \<lparr>env_DB = Some d1_engine\<rparr> now sv =
    (Inr \<lparr>ap_success = True,
          ap_isChecked = Some (formData_get req ''isChecked'' = Some (FString ''true'')),
          ap_allSettings = Some (map row_of_setting
             (upsert \<lparr>setting_key = ''test_checkbox'',
                      setting_value = bool_string (formData_get req ''isChecked'' = Some (FString ''true'')),
                      updated_at = now\<rparr> rows)),
          ap_error = None\<rparr>,
     sv\<lparr>service_db := Some d1_engine,
        database := Some (upsert \<lparr>setting_key = ''test_checkbox'',
                      setting_value = bool_string (formData_get req ''isChecked'' = Some (FString ''true'')),
                      updated_at = now\<rparr> rows)\<rparr>)"
  using assms
  by (cases sv) (simp add: action_def initFromContext_def engine_write Let_def)

lemma loader_engine_success:
  assumes "auth req = Inr ()"
  shows "loader auth req \<lparr>env_DB = Some d1_engine\<rparr> sv =
    (Inr \<lparr>lp_isChecked =
            (case filter (\<lambda>r. setting_key r = ''test_checkbox'') (rows_of (database sv)) of
               [] \<Rightarrow> JNull | r # _ \<Rightarrow> JBool (setting_value r = ''true'')),
          lp_settingsTableName = ''example_table'', lp_dbAvailable = True,
          lp_allSettings = map row_of_setting (rows_of (database sv)), lp_error = None\<rparr>,
     sv\<lparr>service_db := Some d1_engine, database := Some (rows_of (database sv))\<rparr>)"
  using assms
  by (cases sv) (simp add: loader_def initFromContext_def engine_read)

lemma distinct_key_filter:
  "distinct (map f xs) \<Longrightarrow> length (filter (\<lambda>x. f x = k) xs) \<le> Suc 0"
proof (induction xs)
  case Nil
  then show ?case by simp
next
  case (Cons x xs)
  show ?case
  proof (cases "f x = k")
    case True
    with Cons.prems have "\<forall>y\<in>set xs. f y \<noteq> k"
      by (auto simp: image_iff)
    then have "filter (\<lambda>y. f y = k) xs = []"
      by (simp add: filter_empty_conv)
    with True show ?thesis by simp
  next
    case False
    with Cons show ?thesis by simp
  qed
qed

lemma writes_last:
  assumes "database sv = Some rows"
  shows "filter (\<lambda>r. setting_key r = ''test_checkbox'')
           (rows_of (database (writes (ws @ [(b, t)]) sv))) =
         [\<lparr>setting_key = ''test_checkbox'', setting_value = bool_string b, updated_at = t\<rparr>]"
proof -
  from assms have "database (writes ws sv) \<noteq> None"
    by (intro writes_table_exists) simp
  then obtain rows' where rows': "database (writes ws sv) = Some rows'" by auto
  have "database (writes (ws @ [(b, t)]) sv) =
      Some (upsert \<lparr>setting_key = ''test_checkbox'', setting_value = bool_string b, updated_at = t\<rparr> rows')"
    by (simp add: writes_append action_engine_database auth_ok_def write_request_fields
          bool_string_true rows')
  then show ?thesis
    using upsert_same_key [of "\<lparr>setting_key = ''test_checkbox'', setting_value = bool_string b, updated_at = t\<rparr>" rows']
    by (simp add: rows_of_def)
qed

lemma engine_context_cases:
  fixes ctx :: "example_db app_context"
  assumes "env_DB ctx = None \<or> env_DB ctx = Some d1_engine"
  shows "ctx = \<lparr>env_DB = None\<rparr> \<or> ctx = \<lparr>env_DB = Some d1_engine\<rparr>"
  using assms by (cases ctx) auto

lemma action_keeps_invariant:
  fixes ctx :: "example_db app_context"
  assumes "env_DB ctx = None \<or> env_DB ctx = Some d1_engine"
    and "one_row_per_key (database sv)"
  shows "one_row_per_key (database (snd (action auth req ctx now sv)))"
  using engine_context_cases [OF assms(1)] assms(2)
  by (auto simp: action_engine_database action_absent_database one_row_per_key_def
        upsert_distinct split: option.splits if_splits)

lemma loader_keeps_invariant:
  fixes ctx :: "example_db app_context"
  assumes "env_DB ctx = None \<or> env_DB ctx = Some d1_engine"
    and "one_row_per_key (database sv)"
  shows "one_row_per_key (database (snd (loader auth req ctx sv)))"
  using engine_context_cases [OF assms(1)] assms(2)
  by (auto simp: loader_engine_database loader_absent_database one_row_per_key_def
        rows_of_def split: option.splits if_splits)

lemma action_keeps_keys:
  fixes ctx :: "example_db app_context"
  assumes "env_DB ctx = None \<or> env_DB ctx = Some d1_engine"
  shows "setting_key ` set (rows_of (database sv)) \<subseteq>
         setting_key ` set (rows_of (database (snd (action auth req ctx now sv))))"
proof -
  from engine_context_cases [OF assms]
  consider "ctx = \<lparr>env_DB = None\<rparr>" | "ctx = \<lparr>env_DB = Some d1_engine\<rparr>" by blast
  then show ?thesis
  proof cases
    case 1
    then show ?thesis by (simp add: action_absent_database)
  next
    case 2
    show ?thesis
    proof (cases "database sv")
      case None
      then show ?thesis by (simp add: rows_of_def)
    next
      case (Some rows)
      then show ?thesis
        using upsert_keeps_keys [of rows]
        by (simp add: 2 action_engine_database rows_of_def)
    qed
  qed
qed

lemma loader_keeps_rows:
  fixes ctx :: "example_db app_context"
  assumes "env_DB ctx = None \<or> env_DB ctx = Some d1_engine"
  shows "rows_of (database (snd (loader auth req ctx sv))) = rows_of (database sv)"
  using engine_context_cases [OF assms]
  by (auto simp: loader_engine_database loader_absent_database rows_of_def)

section \<open>The settings round trip\<close>

text \<open>
  Claim C1. For every boolean \<open>b\<close>: an authenticated submission with
  \<open>action=updateSettings\<close> and \<open>isChecked\<close> the text of \<open>b\<close>, against a database whose
  table exists, succeeds and leaves exactly one row for \<open>test_checkbox\<close>, whose value is
  \<open>"true"\<close> or \<open>"false"\<close> according to \<open>b\<close>; the loader run next on the resulting state
  returns a payload with the database available and \<open>isChecked\<close> equal to \<open>b\<close>.
\<close>

theorem write_then_read_round_trip:
  assumes "auth wreq = Inr ()" and "auth rreq = Inr ()"
    and "formData_get wreq ''action'' = Some (FString ''updateSettings'')"
    and "formData_get wreq ''isChecked'' = Some (FString (bool_string b))"
    and "database sv = Some rows"
  shows "\<exists>wp rp sv'.
           action auth wreq \<lparr>env_DB = Some d1_engine\<rparr> now sv = (Inr wp, sv') \<and>
           ap_success wp \<and> ap_isChecked wp = Some b \<and>
           filter (\<lambda>r. setting_key r = ''test_checkbox'') (rows_of (database sv')) =
             [\<lparr>setting_key = ''test_checkbox'', setting_value = bool_string b, updated_at = now\<rparr>] \<and>
           (bool_string b = ''true'' \<or> bool_string b = ''false'') \<and>
           loader auth rreq \<lparr>env_DB = Some d1_engine\<rparr> sv' = (Inr rp, sv') \<and>
           lp_dbAvailable rp \<and> lp_isChecked rp = JBool b \<and> lp_error rp = None"
proof -
  let ?row = "\<lparr>setting_key = ''test_checkbox'', setting_value = bool_string b, updated_at = now\<rparr>"
  let ?sv' = "sv\<lparr>service_db := Some d1_engine, database := Some (upsert ?row rows)\<rparr>"
  have flag: "(formData_get wreq ''isChecked'' = Some (FString ''true'')) = b"
    using assms(4) by (simp add: bool_string_def)
  have w: "action auth wreq \<lparr>env_DB = Some d1_engine\<rparr> now sv =
      (Inr \<lparr>ap_success = True, ap_isChecked = Some b,
            ap_allSettings = Some (map row_of_setting (upsert ?row rows)), ap_error = None\<rparr>, ?sv')"
    using action_engine_success [of auth wreq sv rows now] assms(1,3,5) by (simp only: flag)
  have stored: "filter (\<lambda>r. setting_key r = ''test_checkbox'') (rows_of (database ?sv')) = [?row]"
    using upsert_same_key [of ?row rows] by (simp add: rows_of_def)
  have r: "loader auth rreq \<lparr>env_DB = Some d1_engine\<rparr> ?sv' =
      (Inr \<lparr>lp_isChecked = JBool b, lp_settingsTableName = ''example_table'',
            lp_dbAvailable = True,
            lp_allSettings = map row_of_setting (rows_of (database ?sv')), lp_error = None\<rparr>, ?sv')"
    using loader_engine_success [of auth rreq ?sv'] assms(2) stored
    by (simp add: bool_string_true rows_of_def)
  have enc: "bool_string b = ''true'' \<or> bool_string b = ''false''"
    by (simp add: bool_string_def)
  from w stored r enc show ?thesis by simp
qed

theorem write_then_read_round_trip_witness:
  "auth_ok (write_request ''true'') = Inr () \<and> auth_ok \<lparr>form = []\<rparr> = Inr () \<and>
   formData_get (write_request ''true'') ''action'' = Some (FString ''updateSettings'') \<and>
   formData_get (write_request ''true'') ''isChecked'' = Some (FString (bool_string True)) \<and>
   database \<lparr>service_db = None, database = Some [], console = []\<rparr> = (Some [] :: example_db) \<and>
   (\<exists>wp rp sv'.
      action auth_ok (write_request ''true'') \<lparr>env_DB = Some d1_engine\<rparr> 1700000000000
        \<lparr>service_db = None, database = Some [], console = []\<rparr> = (Inr wp, sv') \<and>
      ap_success wp \<and> ap_isChecked wp = Some True \<and>
      filter (\<lambda>r. setting_key r = ''test_checkbox'') (rows_of (database sv')) =
        [\<lparr>setting_key = ''test_checkbox'', setting_value = bool_string True,
          updated_at = 1700000000000\<rparr>] \<and>
      (bool_string True = ''true'' \<or> bool_string True = ''false'') \<and>
      loader auth_ok \<lparr>form = []\<rparr> \<lparr>env_DB = Some d1_engine\<rparr> sv' = (Inr rp, sv') \<and>
      lp_dbAvailable rp \<and> lp_isChecked rp = JBool True \<and> lp_error rp = None)"
proof -
  have h1: "auth_ok (write_request ''true'') = Inr ()" by (simp add: auth_ok_def)
  have h2: "auth_ok \<lparr>form = []\<rparr> = Inr ()" by (simp add: auth_ok_def)
  have h3: "formData_get (write_request ''true'') ''action'' = Some (FString ''updateSettings'')"
    by (simp add: write_request_def formData_get_def)
  have h4: "formData_get (write_request ''true'') ''isChecked'' = Some (FString (bool_string True))"
    by (simp add: write_request_def formData_get_def bool_string_def)
  have h5: "database \<lparr>service_db = None, database = Some [], console = []\<rparr> = (Some [] :: example_db)"
    by simp
  from write_then_read_round_trip [of auth_ok "write_request ''true''" "\<lparr>form = []\<rparr>" True _ "[]" 1700000000000, OF h1 h2 h3 h4 h5] h1 h2 h3 h4 h5
  show ?thesis by - (intro conjI; assumption)
qed

section \<open>One row per key\<close>

text \<open>
  Claim C2. On a database whose table exists, after every non-empty run of writes the table
  holds exactly one row for \<open>test_checkbox\<close>, carrying the flag and the time of the last
  write; in particular after two successive writes the row carries the time of the second.
  With the handle of the engine in the context or with no handle, the action and the loader
  (the only operations) keep the invariant that no key has two rows, so that after an action
  every key has at most one row; no key present before an action is missing after it, and
  the loader leaves the rows as they are.
\<close>

theorem one_row_per_key_kept:
  fixes ctx :: "example_db app_context"
  shows
  "(database sv = Some rows \<longrightarrow>
      filter (\<lambda>r. setting_key r = ''test_checkbox'')
        (rows_of (database (writes (ws @ [(b, t)]) sv))) =
        [\<lparr>setting_key = ''test_checkbox'', setting_value = bool_string b, updated_at = t\<rparr>] \<and>
      filter (\<lambda>r. setting_key r = ''test_checkbox'')
        (rows_of (database (writes [(b1, t1), (b2, t2)] sv))) =
        [\<lparr>setting_key = ''test_checkbox'', setting_value = bool_string b2, updated_at = t2\<rparr>]) \<and>
   ((env_DB ctx = None \<or> env_DB ctx = Some d1_engine) \<longrightarrow>
      (one_row_per_key (database sv) \<longrightarrow>
         one_row_per_key (database (snd (action auth req ctx now sv))) \<and>
         one_row_per_key (database (snd (loader auth req ctx sv))) \<and>
         length (filter (\<lambda>r. setting_key r = k)
                  (rows_of (database (snd (action auth req ctx now sv))))) \<le> 1) \<and>
      setting_key ` set (rows_of (database sv)) \<subseteq>
        setting_key ` set (rows_of (database (snd (action auth req ctx now sv)))) \<and>
      rows_of (database (snd (loader auth req ctx sv))) = rows_of (database sv))"
proof (intro conjI impI)
  assume db: "database sv = Some rows"
  show "filter (\<lambda>r. setting_key r = ''test_checkbox'')
        (rows_of (database (writes (ws @ [(b, t)]) sv))) =
        [\<lparr>setting_key = ''test_checkbox'', setting_value = bool_string b, updated_at = t\<rparr>]"
    by (rule writes_last [OF db])
  show "filter (\<lambda>r. setting_key r = ''test_checkbox'')
        (rows_of (database (writes [(b1, t1), (b2, t2)] sv))) =
        [\<lparr>setting_key = ''test_checkbox'', setting_value = bool_string b2, updated_at = t2\<rparr>]"
    using writes_last [OF db, of "[(b1, t1)]" b2 t2] by simp
next
  assume c: "env_DB ctx = None \<or> env_DB ctx = Some d1_engine"
  show "setting_key ` set (rows_of (database sv)) \<subseteq>
        setting_key ` set (rows_of (database (snd (action auth req ctx now sv))))"
    by (rule action_keeps_keys [OF c])
  show "rows_of (database (snd (loader auth req ctx sv))) = rows_of (database sv)"
    by (rule loader_keeps_rows [OF c])
  assume i: "one_row_per_key (database sv)"
  show a: "one_row_per_key (database (snd (action auth req ctx now sv)))"
    by (rule action_keeps_invariant [OF c i])
  show "one_row_per_key (database (snd (loader auth req ctx sv)))"
    by (rule loader_keeps_invariant [OF c i])
  show "length (filter (\<lambda>r. setting_key r = k)
                  (rows_of (database (snd (action auth req ctx now sv))))) \<le> 1"
    using a distinct_key_filter [of setting_key _ k]
    by (auto simp: one_row_per_key_def rows_of_def split: option.splits)
qed

theorem one_row_per_key_kept_witness:
  "database \<lparr>service_db = None,
             database = Some [\<lparr>setting_key = ''test_checkbox'', setting_value = ''true'', updated_at = 1\<rparr>,
                              \<lparr>setting_key = ''other'', setting_value = ''x'', updated_at = 0\<rparr>],
             console = []\<rparr> =
     Some [\<lparr>setting_key = ''test_checkbox'', setting_value = ''true'', updated_at = 1\<rparr>,
           \<lparr>setting_key = ''other'', setting_value = ''x'', updated_at = 0\<rparr>] \<and>
   filter (\<lambda>r. setting_key r = ''test_checkbox'')
     (rows_of (database (writes ([(True, 10)] @ [(False, 20)])
        \<lparr>service_db = None,
         database = Some [\<lparr>setting_key = ''test_checkbox'', setting_value = ''true'', updated_at = 1\<rparr>,
                          \<lparr>setting_key = ''other'', setting_value = ''x'', updated_at = 0\<rparr>],
         console = []\<rparr>))) =
     [\<lparr>setting_key = ''test_checkbox'', setting_value = bool_string False, updated_at = 20\<rparr>] \<and>
   filter (\<lambda>r. setting_key r = ''test_checkbox'')
     (rows_of (database (writes [(True, 10), (False, 20)]
        \<lparr>service_db = None,
         database = Some [\<lparr>setting_key = ''test_checkbox'', setting_value = ''true'', updated_at = 1\<rparr>,
                          \<lparr>setting_key = ''other'', setting_value = ''x'', updated_at = 0\<rparr>],
         console = []\<rparr>))) =
     [\<lparr>setting_key = ''test_checkbox'', setting_value = bool_string False, updated_at = 20\<rparr>] \<and>
   env_DB \<lparr>env_DB = Some d1_engine\<rparr> = Some d1_engine \<and>
   one_row_per_key (database \<lparr>service_db = None,
         database = Some [\<lparr>setting_key = ''test_checkbox'', setting_value = ''true'', updated_at = 1\<rparr>,
                          \<lparr>setting_key = ''other'', setting_value = ''x'', updated_at = 0\<rparr>],
         console = []\<rparr>) \<and>
   one_row_per_key (database (snd (action auth_ok (write_request ''false'') \<lparr>env_DB = Some d1_engine\<rparr> 30
        \<lparr>service_db = None,
         database = Some [\<lparr>setting_key = ''test_checkbox'', setting_value = ''true'', updated_at = 1\<rparr>,
                          \<lparr>setting_key = ''other'', setting_value = ''x'', updated_at = 0\<rparr>],
         console = []\<rparr>))) \<and>
   one_row_per_key (database (snd (loader auth_ok (write_request ''false'') \<lparr>env_DB = Some d1_engine\<rparr>
        \<lparr>service_db = None,
         database = Some [\<lparr>setting_key = ''test_checkbox'', setting_value = ''true'', updated_at = 1\<rparr>,
                          \<lparr>setting_key = ''other'', setting_value = ''x'', updated_at = 0\<rparr>],
         console = []\<rparr>))) \<and>
   length (filter (\<lambda>r. setting_key r = ''test_checkbox'')
     (rows_of (database (snd (action auth_ok (write_request ''false'') \<lparr>env_DB = Some d1_engine\<rparr> 30
        \<lparr>service_db = None,
         database = Some [\<lparr>setting_key = ''test_checkbox'', setting_value = ''true'', updated_at = 1\<rparr>,
                          \<lparr>setting_key = ''other'', setting_value = ''x'', updated_at = 0\<rparr>],
         console = []\<rparr>))))) \<le> 1"
  using one_row_per_key_kept [where
      sv = "\<lparr>service_db = None,
         database = Some [\<lparr>setting_key = ''test_checkbox'', setting_value = ''true'', updated_at = 1\<rparr>,
                          \<lparr>setting_key = ''other'', setting_value = ''x'', updated_at = 0\<rparr>],
         console = []\<rparr>"
      and rows = "[\<lparr>setting_key = ''test_checkbox'', setting_value = ''true'', updated_at = 1\<rparr>,
                   \<lparr>setting_key = ''other'', setting_value = ''x'', updated_at = 0\<rparr>]"
      and ws = "[(True, 10)]" and b = False and t = 20
      and ?b1.0 = True and ?t1.0 = 10 and ?b2.0 = False and ?t2.0 = 20
      and ctx = "\<lparr>env_DB = Some d1_engine\<rparr>" and auth = auth_ok
      and req = "write_request ''false''" and now = 30 and k = "''test_checkbox''"]
  by (simp add: one_row_per_key_def)

section \<open>The handle is absent\<close>

text \<open>
  Claim C3. When the context carries no database binding, an authenticated load returns
  (it does not throw) the payload with \<open>dbAvailable\<close> false, \<open>isChecked\<close> false, no
  settings and no error, and an authenticated submission with \<open>action=updateSettings\<close>
  returns the payload with \<open>success\<close> false and the non-empty error text
  \<open>Database not available\<close>; neither touches the server state, whatever handle an
  earlier request left in the singleton.
\<close>

theorem absent_handle:
  "auth req = Inr () \<Longrightarrow> env_DB ctx = None \<Longrightarrow>
     loader auth req ctx sv =
       (Inr \<lparr>lp_isChecked = JBool False, lp_settingsTableName = ''example_table'',
             lp_dbAvailable = False, lp_allSettings = [], lp_error = None\<rparr>, sv) \<and>
     (formData_get req ''action'' = Some (FString ''updateSettings'') \<longrightarrow>
        action auth req ctx now sv =
          (Inr \<lparr>ap_success = False, ap_isChecked = None, ap_allSettings = None,
                ap_error = Some ''Database not available''\<rparr>, sv) \<and>
        ''Database not available'' \<noteq> [])"
  by (simp add: loader_def action_def initFromContext_def)

theorem absent_handle_witness:
  "auth_ok (write_request ''true'') = Inr () \<and>
   env_DB (\<lparr>env_DB = None\<rparr> :: example_db app_context) = None \<and>
   loader auth_ok (write_request ''true'') \<lparr>env_DB = None\<rparr>
       \<lparr>service_db = Some d1_engine, database = Some [], console = []\<rparr> =
     (Inr \<lparr>lp_isChecked = JBool False, lp_settingsTableName = ''example_table'',
           lp_dbAvailable = False, lp_allSettings = [], lp_error = None\<rparr>,
      \<lparr>service_db = Some d1_engine, database = Some [], console = []\<rparr>) \<and>
   formData_get (write_request ''true'') ''action'' = Some (FString ''updateSettings'') \<and>
   action auth_ok (write_request ''true'') \<lparr>env_DB = None\<rparr> 1700000000000
       \<lparr>service_db = Some d1_engine, database = Some [], console = []\<rparr> =
     (Inr \<lparr>ap_success = False, ap_isChecked = None, ap_allSettings = None,
           ap_error = Some ''Database not available''\<rparr>,
      \<lparr>service_db = Some d1_engine, database = Some [], console = []\<rparr>)"
  using absent_handle [of auth_ok "write_request ''true''" "\<lparr>env_DB = None\<rparr>"
      "\<lparr>service_db = Some d1_engine, database = Some [], console = []\<rparr>" 1700000000000]
  by (simp add: auth_ok_def write_request_fields)

section \<open>The accessors never hide a failure\<close>

text \<open>
  Claim C4. For \<open>executeQuery\<close>, \<open>getAllRows\<close> and \<open>getFirstRow\<close>, every query and
  every parameter list: with no handle set, the accessor throws the error
  \<open>Database not available\<close> after a warning, and the database is as it was; with a handle
  set, whichever driver call fails (\<open>prepare\<close>, \<open>bind\<close>, or the call that runs the
  statement), the accessor throws exactly the value the driver threw, after logging it, and
  the database is in the state that one driver call left it in.
\<close>

theorem accessor_errors:
  fixes sv :: "'s server"
  shows
  "(service_db sv = None \<longrightarrow>
      executeQuery q ps sv =
        (Inl (JsError ''Database not available''),
         sv\<lparr>console := console sv @ [Warn (''Attempted to execute query without database: '' @ q)]\<rparr>) \<and>
      getAllRows q ps sv =
        (Inl (JsError ''Database not available''),
         sv\<lparr>console := console sv @ [Warn (''Attempted to get all rows without database: '' @ q)]\<rparr>) \<and>
      getFirstRow q ps sv =
        (Inl (JsError ''Database not available''),
         sv\<lparr>console := console sv @ [Warn (''Attempted to get first row without database: '' @ q)]\<rparr>)) \<and>
   (service_db sv = Some d \<longrightarrow>
      (d1_prepare d q = Inl e \<longrightarrow>
         (ps \<noteq> [] \<longrightarrow> executeQuery q ps sv =
            (Inl e, sv\<lparr>console := console sv @ [ErrorLog ''Database query error:'' e]\<rparr>)) \<and>
         getAllRows q ps sv =
            (Inl e, sv\<lparr>console := console sv @ [ErrorLog ''Database query error:'' e]\<rparr>) \<and>
         getFirstRow q ps sv =
            (Inl e, sv\<lparr>console := console sv @ [ErrorLog ''Database query error:'' e]\<rparr>)) \<and>
      (ps \<noteq> [] \<longrightarrow> d1_prepare d q = Inr st \<longrightarrow> d1_bind d st ps = Inl e \<longrightarrow>
         executeQuery q ps sv =
            (Inl e, sv\<lparr>console := console sv @ [ErrorLog ''Database query error:'' e]\<rparr>) \<and>
         getAllRows q ps sv =
            (Inl e, sv\<lparr>console := console sv @ [ErrorLog ''Database query error:'' e]\<rparr>) \<and>
         getFirstRow q ps sv =
            (Inl e, sv\<lparr>console := console sv @ [ErrorLog ''Database query error:'' e]\<rparr>)) \<and>
      (d1_prepare d q = Inr st \<longrightarrow> (if ps \<noteq> [] then d1_bind d st ps = Inr bound else bound = st) \<longrightarrow>
         (ps \<noteq> [] \<longrightarrow> d1_run d bound (database sv) = (Inl e, s') \<longrightarrow>
            executeQuery q ps sv =
              (Inl e, sv\<lparr>database := s', console := console sv @ [ErrorLog ''Database query error:'' e]\<rparr>)) \<and>
         (d1_all d bound (database sv) = (Inl e, s') \<longrightarrow>
            getAllRows q ps sv =
              (Inl e, sv\<lparr>database := s', console := console sv @ [ErrorLog ''Database query error:'' e]\<rparr>)) \<and>
         (d1_first d bound (database sv) = (Inl e, s') \<longrightarrow>
            getFirstRow q ps sv =
              (Inl e, sv\<lparr>database := s', console := console sv @ [ErrorLog ''Database query error:'' e]\<rparr>))) \<and>
      (ps = [] \<longrightarrow> d1_exec d q (database sv) = (Inl e, s') \<longrightarrow>
         executeQuery q ps sv =
           (Inl e, sv\<lparr>database := s', console := console sv @ [ErrorLog ''Database query error:'' e]\<rparr>)))"
  by (simp add: accessor_defs)

theorem accessor_errors_witness:
  "executeQuery ''SELECT 1'' [] \<lparr>service_db = None, database = (None :: example_db), console = []\<rparr> =
     (Inl (JsError ''Database not available''),
      \<lparr>service_db = None, database = None,
       console = [Warn ''Attempted to execute query without database: SELECT 1'']\<rparr>) \<and>
   getAllRows ''SELECT 1'' [] \<lparr>service_db = None, database = (None :: example_db), console = []\<rparr> =
     (Inl (JsError ''Database not available''),
      \<lparr>service_db = None, database = None,
       console = [Warn ''Attempted to get all rows without database: SELECT 1'']\<rparr>) \<and>
   getFirstRow ''SELECT 1'' [] \<lparr>service_db = None, database = (None :: example_db), console = []\<rparr> =
     (Inl (JsError ''Database not available''),
      \<lparr>service_db = None, database = None,
       console = [Warn ''Attempted to get first row without database: SELECT 1'']\<rparr>) \<and>
   executeQuery (upsert_sql ''example_table'') [SText ''test_checkbox'', SText ''true'', SInt 1]
       \<lparr>service_db = Some d1_engine, database = None, console = []\<rparr> =
     (Inl no_such_table,
      \<lparr>service_db = Some d1_engine, database = None,
       console = [ErrorLog ''Database query error:'' no_such_table]\<rparr>) \<and>
   getAllRows (select_all_sql ''example_table'') []
       \<lparr>service_db = Some d1_engine, database = None, console = []\<rparr> =
     (Inl no_such_table,
      \<lparr>service_db = Some d1_engine, database = None,
       console = [ErrorLog ''Database query error:'' no_such_table]\<rparr>) \<and>
   getFirstRow (select_value_sql ''example_table'') [SText ''test_checkbox'']
       \<lparr>service_db = Some d1_engine, database = None, console = []\<rparr> =
     (Inl no_such_table,
      \<lparr>service_db = Some d1_engine, database = None,
       console = [ErrorLog ''Database query error:'' no_such_table]\<rparr>) \<and>
   executeQuery ''VACUUM'' []
       \<lparr>service_db = Some d1_engine, database = Some [], console = []\<rparr> =
     (Inl unsupported,
      \<lparr>service_db = Some d1_engine, database = Some [],
       console = [ErrorLog ''Database query error:'' unsupported]\<rparr>) \<and>
   getAllRows ''SELECT 1'' [SInt 1]
       \<lparr>service_db = Some (d1_engine\<lparr>d1_prepare := \<lambda>q. Inl (JsOther ''prepare failed'')\<rparr>),
        database = Some [], console = []\<rparr> =
     (Inl (JsOther ''prepare failed''),
      \<lparr>service_db = Some (d1_engine\<lparr>d1_prepare := \<lambda>q. Inl (JsOther ''prepare failed'')\<rparr>),
       database = Some [],
       console = [ErrorLog ''Database query error:'' (JsOther ''prepare failed'')]\<rparr>) \<and>
   getFirstRow ''SELECT 1'' [SNull]
       \<lparr>service_db = Some (d1_engine\<lparr>d1_bind := \<lambda>st ps. Inl (JsError ''bind failed'')\<rparr>),
        database = Some [], console = []\<rparr> =
     (Inl (JsError ''bind failed''),
      \<lparr>service_db = Some (d1_engine\<lparr>d1_bind := \<lambda>st ps. Inl (JsError ''bind failed'')\<rparr>),
       database = Some [],
       console = [ErrorLog ''Database query error:'' (JsError ''bind failed'')]\<rparr>)"
  using
    accessor_errors [where sv = "\<lparr>service_db = None, database = (None :: example_db), console = []\<rparr>"
      and q = "''SELECT 1''" and ps = "[]"]
    accessor_errors [where sv = "\<lparr>service_db = Some d1_engine, database = None, console = []\<rparr>"
      and d = d1_engine and q = "upsert_sql ''example_table''"
      and ps = "[SText ''test_checkbox'', SText ''true'', SInt 1]"
      and st = "\<lparr>stmt_sql = upsert_sql ''example_table'', stmt_params = []\<rparr>"
      and bound = "\<lparr>stmt_sql = upsert_sql ''example_table'',
                     stmt_params = [SText ''test_checkbox'', SText ''true'', SInt 1]\<rparr>"
      and e = no_such_table and s' = None]
    accessor_errors [where sv = "\<lparr>service_db = Some d1_engine, database = None, console = []\<rparr>"
      and d = d1_engine and q = "select_all_sql ''example_table''" and ps = "[]"
      and st = "\<lparr>stmt_sql = select_all_sql ''example_table'', stmt_params = []\<rparr>"
      and bound = "\<lparr>stmt_sql = select_all_sql ''example_table'', stmt_params = []\<rparr>"
      and e = no_such_table and s' = None]
    accessor_errors [where sv = "\<lparr>service_db = Some d1_engine, database = None, console = []\<rparr>"
      and d = d1_engine and q = "select_value_sql ''example_table''" and ps = "[SText ''test_checkbox'']"
      and st = "\<lparr>stmt_sql = select_value_sql ''example_table'', stmt_params = []\<rparr>"
      and bound = "\<lparr>stmt_sql = select_value_sql ''example_table'',
                     stmt_params = [SText ''test_checkbox'']\<rparr>"
      and e = no_such_table and s' = None]
    accessor_errors [where sv = "\<lparr>service_db = Some d1_engine, database = Some [], console = []\<rparr>"
      and d = d1_engine and q = "''VACUUM''" and ps = "[]"
      and st = "\<lparr>stmt_sql = ''VACUUM'', stmt_params = []\<rparr>"
      and bound = "\<lparr>stmt_sql = ''VACUUM'', stmt_params = []\<rparr>"
      and e = unsupported and s' = "Some []"]
    accessor_errors [where sv = "\<lparr>service_db = Some (d1_engine\<lparr>d1_prepare := \<lambda>q. Inl (JsOther ''prepare failed'')\<rparr>),
        database = Some [], console = []\<rparr>"
      and d = "d1_engine\<lparr>d1_prepare := \<lambda>q. Inl (JsOther ''prepare failed'')\<rparr>"
      and q = "''SELECT 1''" and ps = "[SInt 1]" and e = "JsOther ''prepare failed''"]
    accessor_errors [where sv = "\<lparr>service_db = Some (d1_engine\<lparr>d1_bind := \<lambda>st ps. Inl (JsError ''bind failed'')\<rparr>),
        database = Some [], console = []\<rparr>"
      and d = "d1_engine\<lparr>d1_bind := \<lambda>st ps. Inl (JsError ''bind failed'')\<rparr>"
      and q = "''SELECT 1''" and ps = "[SNull]"
      and st = "\<lparr>stmt_sql = ''SELECT 1'', stmt_params = []\<rparr>"
      and e = "JsError ''bind failed''"]
  by (simp add: engine_defs create_table_sql_def)

section \<open>How the write handler reads the flag\<close>

text \<open>
  Claim C10. For submissions with \<open>action=updateSettings\<close>, the action depends on the
  \<open>isChecked\<close> field only through whether it is exactly the string \<open>true\<close>: two
  authenticated requests that agree on that have the same outcome, for every driver; so any
  other string, a file or a missing field behaves as \<open>false\<close> does. Against the engine
  with the table present, the submission always succeeds, reports that boolean, and stores
  \<open>"true"\<close> if the field was exactly \<open>true\<close> and \<open>"false"\<close> otherwise.
\<close>

theorem exact_true_only:
  fixes sv :: "'s server" and sv' :: "example_db server"
  shows
  "(auth r1 = Inr () \<longrightarrow> auth r2 = Inr () \<longrightarrow>
      formData_get r1 ''action'' = Some (FString ''updateSettings'') \<longrightarrow>
      formData_get r2 ''action'' = Some (FString ''updateSettings'') \<longrightarrow>
      (formData_get r1 ''isChecked'' = Some (FString ''true'')) =
        (formData_get r2 ''isChecked'' = Some (FString ''true'')) \<longrightarrow>
      action auth r1 ctx now sv = action auth r2 ctx now sv) \<and>
   (auth' req = Inr () \<longrightarrow>
      formData_get req ''action'' = Some (FString ''updateSettings'') \<longrightarrow>
      database sv' = Some rows \<longrightarrow>
      action auth' req \<lparr>env_DB = Some d1_engine\<rparr> now sv' =
        (Inr \<lparr>ap_success = True,
              ap_isChecked = Some (formData_get req ''isChecked'' = Some (FString ''true'')),
              ap_allSettings = Some (map row_of_setting
                (upsert \<lparr>setting_key = ''test_checkbox'',
                         setting_value =
                           (if formData_get req ''isChecked'' = Some (FString ''true'')
                            then ''true'' else ''false''),
                         updated_at = now\<rparr> rows)),
              ap_error = None\<rparr>,
         sv'\<lparr>service_db := Some d1_engine,
             database := Some
               (upsert \<lparr>setting_key = ''test_checkbox'',
                        setting_value =
                          (if formData_get req ''isChecked'' = Some (FString ''true'')
                           then ''true'' else ''false''),
                        updated_at = now\<rparr> rows)\<rparr>))"
proof (intro conjI impI)
  assume "auth r1 = Inr ()" "auth r2 = Inr ()"
    "formData_get r1 ''action'' = Some (FString ''updateSettings'')"
    "formData_get r2 ''action'' = Some (FString ''updateSettings'')"
    "(formData_get r1 ''isChecked'' = Some (FString ''true'')) =
        (formData_get r2 ''isChecked'' = Some (FString ''true''))"
  then show "action auth r1 ctx now sv = action auth r2 ctx now sv"
    by (simp add: action_def Let_def)
next
  assume "auth' req = Inr ()"
    "formData_get req ''action'' = Some (FString ''updateSettings'')"
    "database sv' = Some rows"
  then show "action auth' req \<lparr>env_DB = Some d1_engine\<rparr> now sv' =
        (Inr \<lparr>ap_success = True,
              ap_isChecked = Some (formData_get req ''isChecked'' = Some (FString ''true'')),
              ap_allSettings = Some (map row_of_setting
                (upsert \<lparr>setting_key = ''test_checkbox'',
                         setting_value =
                           (if formData_get req ''isChecked'' = Some (FString ''true'')
                            then ''true'' else ''false''),
                         updated_at = now\<rparr> rows)),
              ap_error = None\<rparr>,
         sv'\<lparr>service_db := Some d1_engine,
             database := Some
               (upsert \<lparr>setting_key = ''test_checkbox'',
                        setting_value =
                          (if formData_get req ''isChecked'' = Some (FString ''true'')
                           then ''true'' else ''false''),
                        updated_at = now\<rparr> rows)\<rparr>)"
    using action_engine_success [of auth' req sv' rows now]
    by (simp only: bool_string_def)
qed

theorem exact_true_only_witness:
  "auth_ok \<lparr>form = [(''action'', FString ''updateSettings''), (''isChecked'', FString ''TRUE'')]\<rparr> = Inr () \<and>
   auth_ok (write_request ''false'') = Inr () \<and>
   formData_get \<lparr>form = [(''action'', FString ''updateSettings''), (''isChecked'', FString ''TRUE'')]\<rparr>
     ''action'' = Some (FString ''updateSettings'') \<and>
   formData_get (write_request ''false'') ''action'' = Some (FString ''updateSettings'') \<and>
   (formData_get \<lparr>form = [(''action'', FString ''updateSettings''), (''isChecked'', FString ''TRUE'')]\<rparr>
      ''isChecked'' = Some (FString ''true'')) =
     (formData_get (write_request ''false'') ''isChecked'' = Some (FString ''true'')) \<and>
   action auth_ok \<lparr>form = [(''action'', FString ''updateSettings''), (''isChecked'', FString ''TRUE'')]\<rparr>
       \<lparr>env_DB = Some d1_engine\<rparr> 7 \<lparr>service_db = None, database = Some [], console = []\<rparr> =
     action auth_ok (write_request ''false'')
       \<lparr>env_DB = Some d1_engine\<rparr> 7 \<lparr>service_db = None, database = Some [], console = []\<rparr> \<and>
   formData_get \<lparr>form = [(''action'', FString ''updateSettings'')]\<rparr> ''isChecked'' = None \<and>
   action auth_ok \<lparr>form = [(''action'', FString ''updateSettings'')]\<rparr>
       \<lparr>env_DB = Some d1_engine\<rparr> 7 \<lparr>service_db = None, database = Some [], console = []\<rparr> =
     (Inr \<lparr>ap_success = True, ap_isChecked = Some False,
           ap_allSettings = Some [[(''key'', SText ''test_checkbox''), (''value'', SText ''false''),
                                   (''updated_at'', SInt 7)]],
           ap_error = None\<rparr>,
      \<lparr>service_db = Some d1_engine,
       database = Some [\<lparr>setting_key = ''test_checkbox'', setting_value = ''false'', updated_at = 7\<rparr>],
       console = []\<rparr>)"
  using
    exact_true_only [where auth = auth_ok
      and ?r1.0 = "\<lparr>form = [(''action'', FString ''updateSettings''), (''isChecked'', FString ''TRUE'')]\<rparr>"
      and ?r2.0 = "write_request ''false''"
      and ctx = "\<lparr>env_DB = Some d1_engine\<rparr>" and now = 7
      and sv = "\<lparr>service_db = None, database = Some [], console = []\<rparr>"
      and auth' = auth_ok and req = "\<lparr>form = [(''action'', FString ''updateSettings'')]\<rparr>"
      and sv' = "\<lparr>service_db = None, database = Some [], console = []\<rparr>" and rows = "[]"]
  by (simp add: auth_ok_def write_request_def formData_get_def upsert_def row_of_setting_def)

section \<open>The optimistic toggle of the settings view\<close>

lemma fetcher_effect_frame:
  "\<exists>err rows. fetcher_effect v = v\<lparr>saveError := err, tableData := rows\<rparr>"
proof -
  have "fetcher_effect v = v\<lparr>saveError := saveError (fetcher_effect v), tableData := tableData (fetcher_effect v)\<rparr>"
    by (simp add: fetcher_effect_def Let_def split: option.splits)
  then show ?thesis by blast
qed

lemma fetcher_effect_checkbox: "checkboxState (fetcher_effect v) = checkboxState v"
  by (simp add: fetcher_effect_def Let_def split: option.splits)

lemma receive_response_checkbox: "checkboxState (receive_response d v) = checkboxState v"
  by (simp add: receive_response_def fetcher_effect_checkbox)

lemma receive_all_checkbox: "checkboxState (receive_all ds v) = checkboxState v"
  by (induction ds arbitrary: v) (simp_all add: receive_response_checkbox)

lemma handleCheckboxChange_checkbox: "checkboxState (handleCheckboxChange c v) = JBool c"
  by (simp add: handleCheckboxChange_def Let_def)

lemma handleCheckboxChange_pending:
  "fetcher_data (handleCheckboxChange c v) = fetcher_data v"
  by (simp add: handleCheckboxChange_def Let_def)

lemma failed_response_error:
  "\<not> ap_success d \<Longrightarrow> ap_error d = Some e \<Longrightarrow> e \<noteq> [] \<Longrightarrow>
     saveError (receive_response d v) = e"
  by (simp add: receive_response_def fetcher_effect_def Let_def split: option.splits)

text \<open>
  Claim C9. A toggle sets the displayed checkbox state to the new value at once, while the
  write is only submitted (the fetcher is submitting and no response has been handled).
  Handling a response changes nothing but the error text and the table data, so the
  checkbox state is the same after any response and after any run of responses; after a
  failed write with a non-empty error the view shows that error beside the toggled value.
\<close>

theorem toggle_not_rolled_back:
  "checkboxState (handleCheckboxChange c v) = JBool c \<and>
   fetcher_data (handleCheckboxChange c v) = fetcher_data v \<and>
   (view_dbAvailable v \<longrightarrow>
      fetcher_state (handleCheckboxChange c v) = Submitting \<and>
      submitted_forms (handleCheckboxChange c v) =
        submitted_forms v @ [[(''action'', FString ''updateSettings''),
                              (''isChecked'', FString (bool_string c))]]) \<and>
   checkboxState (receive_response d w) = checkboxState w \<and>
   (\<exists>err rows. fetcher_effect w = w\<lparr>saveError := err, tableData := rows\<rparr>) \<and>
   checkboxState (receive_all ds (handleCheckboxChange c v)) = JBool c \<and>
   (\<not> ap_success d \<longrightarrow> ap_error d = Some e \<longrightarrow> e \<noteq> [] \<longrightarrow>
      checkboxState (receive_response d (handleCheckboxChange c v)) = JBool c \<and>
      saveError (receive_response d (handleCheckboxChange c v)) = e)"
  using fetcher_effect_frame [of w]
  by (simp add: handleCheckboxChange_checkbox handleCheckboxChange_pending
        receive_response_checkbox receive_all_checkbox failed_response_error)
     (simp add: handleCheckboxChange_def Let_def)

theorem toggle_not_rolled_back_witness:
  "view_dbAvailable (mount_view \<lparr>lp_isChecked = JBool False, lp_settingsTableName = ''example_table'',
       lp_dbAvailable = True, lp_allSettings = [], lp_error = None\<rparr>) \<and>
   fetcher_state (handleCheckboxChange True (mount_view \<lparr>lp_isChecked = JBool False,
       lp_settingsTableName = ''example_table'', lp_dbAvailable = True, lp_allSettings = [],
       lp_error = None\<rparr>)) = Submitting \<and>
   \<not> ap_success \<lparr>ap_success = False, ap_isChecked = None, ap_allSettings = None,
       ap_error = Some ''Database not available''\<rparr> \<and>
   checkboxState (receive_response \<lparr>ap_success = False, ap_isChecked = None, ap_allSettings = None,
       ap_error = Some ''Database not available''\<rparr>
     (handleCheckboxChange True (mount_view \<lparr>lp_isChecked = JBool False,
       lp_settingsTableName = ''example_table'', lp_dbAvailable = True, lp_allSettings = [],
       lp_error = None\<rparr>))) = JBool True \<and>
   saveError (receive_response \<lparr>ap_success = False, ap_isChecked = None, ap_allSettings = None,
       ap_error = Some ''Database not available''\<rparr>
     (handleCheckboxChange True (mount_view \<lparr>lp_isChecked = JBool False,
       lp_settingsTableName = ''example_table'', lp_dbAvailable = True, lp_allSettings = [],
       lp_error = None\<rparr>))) = ''Database not available''"
  using toggle_not_rolled_back [where c = True
      and v = "mount_view \<lparr>lp_isChecked = JBool False, lp_settingsTableName = ''example_table'',
                 lp_dbAvailable = True, lp_allSettings = [], lp_error = None\<rparr>"
      and d = "\<lparr>ap_success = False, ap_isChecked = None, ap_allSettings = None,
                 ap_error = Some ''Database not available''\<rparr>"
      and e = "''Database not available''"]
  by (simp add: mount_view_def fetcher_effect_def)

section \<open>Sorting the status table: directions\<close>

text \<open>
  The claim C5 as stated asks, from every sort state, for ascending after the first click
  and descending after the second. From the state in which the column is already sorted
  ascending that fails: the first click gives descending.
\<close>

theorem first_click_not_always_ascending:
  "\<not> (cfg_direction (handleSort ''name'' \<lparr>cfg_key = Some ''name'', cfg_direction = Asc\<rparr>) = Asc \<and>
      cfg_direction (handleSort ''name'' (handleSort ''name'' \<lparr>cfg_key = Some ''name'', cfg_direction = Asc\<rparr>)) = Desc)"
  by (simp add: handleSort_def)

text \<open>
  Claim C5, amended. From every sort state, two successive clicks on the same column give
  two different directions: ascending then descending, unless that column was already
  sorted ascending, in which case descending then ascending. A click on a column other than
  the sorted one sets the direction to ascending.
\<close>

theorem sort_toggles:
  "cfg_key (handleSort k cfg) = Some k \<and>
   cfg_direction (handleSort k (handleSort k cfg)) \<noteq> cfg_direction (handleSort k cfg) \<and>
   (\<not> (cfg_key cfg = Some k \<and> cfg_direction cfg = Asc) \<longrightarrow>
      cfg_direction (handleSort k cfg) = Asc \<and>
      cfg_direction (handleSort k (handleSort k cfg)) = Desc) \<and>
   (cfg_key cfg = Some k \<and> cfg_direction cfg = Asc \<longrightarrow>
      cfg_direction (handleSort k cfg) = Desc \<and>
      cfg_direction (handleSort k (handleSort k cfg)) = Asc) \<and>
   (cfg_key cfg \<noteq> Some k \<longrightarrow> cfg_direction (handleSort k cfg) = Asc)"
  by (simp add: handleSort_def)

theorem sort_toggles_witness:
  "\<not> (cfg_key initial_sortConfig = Some ''status'' \<and> cfg_direction initial_sortConfig = Asc) \<and>
   cfg_direction (handleSort ''status'' initial_sortConfig) = Asc \<and>
   cfg_direction (handleSort ''status'' (handleSort ''status'' initial_sortConfig)) = Desc \<and>
   cfg_key \<lparr>cfg_key = Some ''name'', cfg_direction = Asc\<rparr> = Some ''name'' \<and>
   cfg_direction \<lparr>cfg_key = Some ''name'', cfg_direction = Asc\<rparr> = Asc \<and>
   cfg_direction (handleSort ''name'' \<lparr>cfg_key = Some ''name'', cfg_direction = Asc\<rparr>) = Desc \<and>
   cfg_direction (handleSort ''name'' (handleSort ''name'' \<lparr>cfg_key = Some ''name'', cfg_direction = Asc\<rparr>)) = Asc \<and>
   cfg_key \<lparr>cfg_key = Some ''name'', cfg_direction = Desc\<rparr> \<noteq> Some ''time'' \<and>
   cfg_direction (handleSort ''time'' \<lparr>cfg_key = Some ''name'', cfg_direction = Desc\<rparr>) = Asc"
  using sort_toggles [of "''status''" initial_sortConfig]
    sort_toggles [of "''name''" "\<lparr>cfg_key = Some ''name'', cfg_direction = Asc\<rparr>"]
    sort_toggles [of "''time''" "\<lparr>cfg_key = Some ''name'', cfg_direction = Desc\<rparr>"]
  by (simp add: initial_sortConfig_def)

text \<open>
  The claim C6 as stated has each column cycle through three states, with the unsorted
  state part of the cycle. Sorting the column \<open>name\<close> three times from the initial state
  shows unsorted, ascending, descending and then ascending again: the third sort does not
  bring the unsorted state back.
\<close>

theorem no_return_to_unsorted:
  "getSortIcon ''name'' initial_sortConfig = Select \<and>
   getSortIcon ''name'' (handleSort ''name'' initial_sortConfig) = ArrowUp \<and>
   getSortIcon ''name'' (handleSort ''name'' (handleSort ''name'' initial_sortConfig)) = ArrowDown \<and>
   getSortIcon ''name'' (handleSort ''name'' (handleSort ''name'' (handleSort ''name'' initial_sortConfig))) = ArrowUp \<and>
   getSortIcon ''name'' (handleSort ''name'' (handleSort ''name'' (handleSort ''name'' initial_sortConfig))) \<noteq> Select \<and>
   handleSort ''name'' (handleSort ''name'' (handleSort ''name'' initial_sortConfig)) \<noteq> initial_sortConfig"
  by (simp add: getSortIcon_def handleSort_def initial_sortConfig_def)

text \<open>
  Claim C6, amended. A column header shows one of three states (unsorted, ascending,
  descending). From unsorted, sorting the column steps to ascending, then descending, then
  ascending again: once sorted, a column alternates between the two directions, and no sort
  of a column leaves that column, or the table, unsorted. A column is unsorted again only
  after a different column is sorted.
\<close>

theorem sort_states_of_a_column:
  "getSortIcon k (handleSort k cfg) \<noteq> Select \<and>
   cfg_key (handleSort k cfg) \<noteq> None \<and>
   (getSortIcon k cfg = Select \<longrightarrow>
      getSortIcon k (handleSort k cfg) = ArrowUp \<and>
      getSortIcon k (handleSort k (handleSort k cfg)) = ArrowDown \<and>
      getSortIcon k (handleSort k (handleSort k (handleSort k cfg))) = ArrowUp) \<and>
   (getSortIcon k cfg = ArrowUp \<longrightarrow> getSortIcon k (handleSort k cfg) = ArrowDown) \<and>
   (getSortIcon k cfg = ArrowDown \<longrightarrow> getSortIcon k (handleSort k cfg) = ArrowUp) \<and>
   (j \<noteq> k \<longrightarrow> getSortIcon k (handleSort j cfg) = Select)"
  by (simp add: getSortIcon_def handleSort_def)

theorem sort_states_of_a_column_witness:
  "getSortIcon ''time'' initial_sortConfig = Select \<and>
   getSortIcon ''time'' (handleSort ''time'' initial_sortConfig) = ArrowUp \<and>
   getSortIcon ''time'' (handleSort ''time'' (handleSort ''time'' initial_sortConfig)) = ArrowDown \<and>
   getSortIcon ''time'' (handleSort ''time'' (handleSort ''time'' (handleSort ''time'' initial_sortConfig))) = ArrowUp \<and>
   getSortIcon ''time'' \<lparr>cfg_key = Some ''time'', cfg_direction = Asc\<rparr> = ArrowUp \<and>
   getSortIcon ''time'' (handleSort ''time'' \<lparr>cfg_key = Some ''time'', cfg_direction = Asc\<rparr>) = ArrowDown \<and>
   getSortIcon ''time'' \<lparr>cfg_key = Some ''time'', cfg_direction = Desc\<rparr> = ArrowDown \<and>
   getSortIcon ''time'' (handleSort ''time'' \<lparr>cfg_key = Some ''time'', cfg_direction = Desc\<rparr>) = ArrowUp \<and>
   ''name'' \<noteq> ''time'' \<and>
   getSortIcon ''time'' (handleSort ''name'' \<lparr>cfg_key = Some ''time'', cfg_direction = Desc\<rparr>) = Select"
  using sort_states_of_a_column [of "''time''" initial_sortConfig]
    sort_states_of_a_column [of "''time''" "\<lparr>cfg_key = Some ''time'', cfg_direction = Asc\<rparr>"]
    sort_states_of_a_column [of "''time''" "\<lparr>cfg_key = Some ''time'', cfg_direction = Desc\<rparr>" "''name''"]
  by (simp add: getSortIcon_def initial_sortConfig_def)

section \<open>The modal form rejects a blank name\<close>

lemma trim_blank: "list_all is_js_whitespace s \<Longrightarrow> js_trim s = []"
  by (auto simp: js_trim_def list_all_iff dest: set_dropWhileD)

text \<open>
  Claim C7. When the name input is empty or holds only white space, the save handler
  changes nothing but the toasts: if the toast interface exists one notification is added,
  and the submitted names, the status log, the input and the modal (not hidden) are as
  before.
\<close>

theorem blank_name_rejected:
  "list_all is_js_whitespace (nameInputValue g) \<Longrightarrow>
     handleSave currentTime date_now g =
       (if toast_api g
        then g\<lparr>toasts := toasts g @ [\<lparr>toast_message = ''Please enter a name before saving'',
                                       toast_duration = 2000, toast_tone = Some ''critical''\<rparr>]\<rparr>
        else g) \<and>
     submittedNames (handleSave currentTime date_now g) = submittedNames g \<and>
     componentStatusData (handleSave currentTime date_now g) = componentStatusData g \<and>
     modal_shown (handleSave currentTime date_now g) = modal_shown g \<and>
     nameInputValue (handleSave currentTime date_now g) = nameInputValue g"
  by (simp add: handleSave_def trim_blank toast_show_def)

theorem blank_name_rejected_witness:
  "list_all is_js_whitespace (nameInputValue \<lparr>showBanner = False, toastChecked = False, submittedNames = [],
        nameInputValue = [32, 9, 160], showSpinner = False, buttonLoading = False,
        componentStatusData = initial_componentStatusData (lit ''10:00:00''),
        sortConfig = initial_sortConfig, modal_shown = Some True, toast_api = True,
        toasts = []\<rparr>) \<and>
   handleSave (lit ''10:00:05'') 1700000000000 \<lparr>showBanner = False, toastChecked = False, submittedNames = [],
        nameInputValue = [32, 9, 160], showSpinner = False, buttonLoading = False,
        componentStatusData = initial_componentStatusData (lit ''10:00:00''),
        sortConfig = initial_sortConfig, modal_shown = Some True, toast_api = True,
        toasts = []\<rparr> =
     \<lparr>showBanner = False, toastChecked = False, submittedNames = [],
        nameInputValue = [32, 9, 160], showSpinner = False, buttonLoading = False,
        componentStatusData = initial_componentStatusData (lit ''10:00:00''),
        sortConfig = initial_sortConfig, modal_shown = Some True, toast_api = True,
        toasts = []\<rparr>\<lparr>toasts := [\<lparr>toast_message = ''Please enter a name before saving'',
                      toast_duration = 2000, toast_tone = Some ''critical''\<rparr>]\<rparr> \<and>
   submittedNames (handleSave (lit ''10:00:05'') 1700000000000 \<lparr>showBanner = False, toastChecked = False, submittedNames = [],
        nameInputValue = [32, 9, 160], showSpinner = False, buttonLoading = False,
        componentStatusData = initial_componentStatusData (lit ''10:00:00''),
        sortConfig = initial_sortConfig, modal_shown = Some True, toast_api = True,
        toasts = []\<rparr>) = [] \<and>
   componentStatusData (handleSave (lit ''10:00:05'') 1700000000000 \<lparr>showBanner = False, toastChecked = False, submittedNames = [],
        nameInputValue = [32, 9, 160], showSpinner = False, buttonLoading = False,
        componentStatusData = initial_componentStatusData (lit ''10:00:00''),
        sortConfig = initial_sortConfig, modal_shown = Some True, toast_api = True,
        toasts = []\<rparr>) =
     initial_componentStatusData (lit ''10:00:00'') \<and>
   modal_shown (handleSave (lit ''10:00:05'') 1700000000000 \<lparr>showBanner = False, toastChecked = False, submittedNames = [],
        nameInputValue = [32, 9, 160], showSpinner = False, buttonLoading = False,
        componentStatusData = initial_componentStatusData (lit ''10:00:00''),
        sortConfig = initial_sortConfig, modal_shown = Some True, toast_api = True,
        toasts = []\<rparr>) = Some True"
proof -
  have h: "list_all is_js_whitespace (nameInputValue \<lparr>showBanner = False, toastChecked = False, submittedNames = [],
        nameInputValue = [32, 9, 160], showSpinner = False, buttonLoading = False,
        componentStatusData = initial_componentStatusData (lit ''10:00:00''),
        sortConfig = initial_sortConfig, modal_shown = Some True, toast_api = True,
        toasts = []\<rparr>)"
    by (simp add: is_js_whitespace_def)
  from blank_name_rejected [OF h, of "lit ''10:00:05''" 1700000000000] h
  show ?thesis by simp
qed

section \<open>The sorted view of the status table\<close>

lemma mset_sort_insert: "mset (sort_insert cmp x ys) = add_mset x (mset ys)"
  by (induction ys) auto

lemma mset_array_sort: "mset (array_sort cmp xs) = mset xs"
  by (induction xs) (auto simp: mset_sort_insert)

lemma set_sort_insert: "set (sort_insert cmp x ys) = insert x (set ys)"
  by (induction ys) auto

lemma sorted_sort_insert:
  assumes total: "\<And>a b. cmp a b \<le> 0 \<or> cmp b a \<le> 0"
    and trans: "\<And>a b c. cmp a b \<le> 0 \<Longrightarrow> cmp b c \<le> 0 \<Longrightarrow> cmp a c \<le> 0"
    and sorted: "sorted_wrt (\<lambda>a b. cmp a b \<le> 0) ys"
  shows "sorted_wrt (\<lambda>a b. cmp a b \<le> 0) (sort_insert cmp x ys)"
  using sorted
proof (induction ys)
  case Nil
  then show ?case by simp
next
  case (Cons y ys)
  show ?case
  proof (cases "cmp x y \<le> 0")
    case True
    have "cmp x z \<le> 0" if "z \<in> set ys" for z
      using Cons.prems that trans [OF True, of z] by auto
    with True Cons.prems show ?thesis by simp
  next
    case False
    then have yx: "cmp y x \<le> 0" using total [of x y] by simp
    from Cons have "sorted_wrt (\<lambda>a b. cmp a b \<le> 0) (sort_insert cmp x ys)" by simp
    with False yx Cons.prems show ?thesis by (simp add: set_sort_insert)
  qed
qed

lemma sorted_array_sort:
  assumes "\<And>a b. cmp a b \<le> 0 \<or> cmp b a \<le> 0"
    and "\<And>a b c. cmp a b \<le> 0 \<Longrightarrow> cmp b c \<le> 0 \<Longrightarrow> cmp a c \<le> 0"
  shows "sorted_wrt (\<lambda>a b. cmp a b \<le> 0) (array_sort cmp xs)"
proof (induction xs)
  case Nil
  then show ?case by simp
next
  case (Cons x xs)
  then show ?case
    using sorted_sort_insert [of cmp "array_sort cmp xs" x, OF assms] by simp
qed

lemma filter_sort_insert:
  assumes "\<And>a b. P a \<Longrightarrow> P b \<Longrightarrow> cmp a b \<le> 0"
  shows "filter P (sort_insert cmp x ys) = (if P x then x # filter P ys else filter P ys)"
  using assms by (induction ys) auto

lemma filter_array_sort:
  assumes "\<And>a b. P a \<Longrightarrow> P b \<Longrightarrow> cmp a b \<le> 0"
  shows "filter P (array_sort cmp xs) = filter P xs"
  using assms by (induction xs) (auto simp: filter_sort_insert)

lemma entry_field_shape:
  "(\<exists>x y. entry_field k a = Some x \<and> entry_field k b = Some y) \<or>
   (entry_field k a = None \<and> entry_field k b = None)"
  by (simp add: entry_field_def)

lemma compare_entries_le:
  "compare_entries k dir a b \<le> 0 \<longleftrightarrow>
     (if dir = Asc then \<not> js_lt (entry_field k b) (entry_field k a)
      else \<not> js_lt (entry_field k a) (entry_field k b))"
  using entry_field_shape [of k a b]
  by (auto simp: compare_entries_def)

lemma compare_entries_total:
  "compare_entries k dir a b \<le> 0 \<or> compare_entries k dir b a \<le> 0"
  using entry_field_shape [of k a b]
  by (auto simp: compare_entries_le)

lemma compare_entries_trans:
  "compare_entries k dir a b \<le> 0 \<Longrightarrow> compare_entries k dir b c \<le> 0 \<Longrightarrow>
     compare_entries k dir a c \<le> 0"
  using entry_field_shape [of k a b] entry_field_shape [of k b c]
  by (auto simp: compare_entries_le split: if_splits)

lemma compare_entries_equal:
  "entry_field k a = entry_field k b \<Longrightarrow> compare_entries k dir a b \<le> 0"
  using entry_field_shape [of k a b]
  by (auto simp: compare_entries_le)

lemma sortedComponentStatusData_unsorted:
  "cfg_key cfg = None \<or> cfg_key cfg = Some [] \<Longrightarrow> sortedComponentStatusData cfg r h = (r, h)"
  by (auto simp: sortedComponentStatusData_def)

lemma sortedComponentStatusData_sorted:
  assumes "cfg_key cfg = Some k" and "k \<noteq> []"
  shows "sortedComponentStatusData cfg r h =
    (next_ref h,
     h\<lparr>cells := (cells h)(next_ref h :=
          Some (array_sort (compare_entries k (cfg_direction cfg)) (read_array h r))),
       next_ref := Suc (next_ref h)\<rparr>)"
  using assms
  by (simp add: sortedComponentStatusData_def spread_copy_def sort_in_place_def read_array_def)

lemma sorted_by_comparison:
  "sorted_wrt (\<lambda>a b. if dir = Asc then \<not> js_lt (entry_field k b) (entry_field k a)
                      else \<not> js_lt (entry_field k a) (entry_field k b))
     (array_sort (compare_entries k dir) xs)"
proof -
  have "sorted_wrt (\<lambda>a b. compare_entries k dir a b \<le> 0) (array_sort (compare_entries k dir) xs)"
    by (rule sorted_array_sort) (rule compare_entries_total, rule compare_entries_trans)
  then show ?thesis by (simp only: compare_entries_le)
qed

lemma stable_by_comparison:
  "filter (\<lambda>e. entry_field k e = v) (array_sort (compare_entries k dir) xs) =
   filter (\<lambda>e. entry_field k e = v) xs"
  by (rule filter_array_sort) (simp add: compare_entries_equal)

text \<open>
  Claim C8. Let the status list be stored at a reference allocated in the store. The
  sorted view is a permutation of the list; for a selected column it is ordered by the
  comparison of that column (no entry is followed by one that is smaller, for ascending, or
  greater, for descending), and the entries with any one value of the column appear in their
  original order; with no column selected the view is the list itself. In every case the
  array at the list's reference is what it was.
\<close>

theorem sorted_view:
  assumes "cells h r = Some xs" and "r < next_ref h"
  shows
  "let view = sortedComponentStatusData cfg r h;
       shown = read_array (snd view) (fst view)
   in cells (snd view) r = Some xs \<and>
      mset shown = mset xs \<and>
      (cfg_key cfg = Some k \<and> k \<noteq> [] \<longrightarrow>
         sorted_wrt (\<lambda>a b. if cfg_direction cfg = Asc
                            then \<not> js_lt (entry_field k b) (entry_field k a)
                            else \<not> js_lt (entry_field k a) (entry_field k b)) shown \<and>
         filter (\<lambda>e. entry_field k e = v) shown = filter (\<lambda>e. entry_field k e = v) xs) \<and>
      (cfg_key cfg = None \<or> cfg_key cfg = Some [] \<longrightarrow> shown = xs \<and> view = (r, h))"
proof (cases "cfg_key cfg = None \<or> cfg_key cfg = Some []")
  case True
  then have "sortedComponentStatusData cfg r h = (r, h)"
    by (rule sortedComponentStatusData_unsorted)
  with True assms(1) show ?thesis
    by (auto simp: Let_def read_array_def)
next
  case False
  then obtain j where j: "cfg_key cfg = Some j" "j \<noteq> []" by auto
  let ?ys = "array_sort (compare_entries j (cfg_direction cfg)) xs"
  have r: "read_array h r = xs" using assms(1) by (simp add: read_array_def)
  have neq: "r \<noteq> next_ref h" using assms(2) by simp
  have view: "sortedComponentStatusData cfg r h =
      (next_ref h, h\<lparr>cells := (cells h)(next_ref h := Some ?ys), next_ref := Suc (next_ref h)\<rparr>)"
    using sortedComponentStatusData_sorted [OF j, of r h] by (simp only: r)
  have kept: "cells (snd (sortedComponentStatusData cfg r h)) r = Some xs"
    using neq assms(1) by (simp add: view)
  have shown: "read_array (snd (sortedComponentStatusData cfg r h))
                 (fst (sortedComponentStatusData cfg r h)) = ?ys"
    by (simp add: view read_array_def)
  have perm: "mset ?ys = mset xs" by (rule mset_array_sort)
  have ordered: "sorted_wrt (\<lambda>a b. if cfg_direction cfg = Asc
                            then \<not> js_lt (entry_field k b) (entry_field k a)
                            else \<not> js_lt (entry_field k a) (entry_field k b)) ?ys"
    if kk: "cfg_key cfg = Some k"
  proof -
    from kk j have jk: "j = k" by simp
    show ?thesis unfolding jk by (rule sorted_by_comparison)
  qed
  have stable: "filter (\<lambda>e. entry_field k e = v) ?ys = filter (\<lambda>e. entry_field k e = v) xs"
    if kk: "cfg_key cfg = Some k"
  proof -
    from kk j have jk: "j = k" by simp
    show ?thesis unfolding jk by (rule stable_by_comparison)
  qed
  from False kept perm ordered stable show ?thesis
    unfolding Let_def shown by blast
qed

theorem sorted_view_witness:
  "cells \<lparr>cells = [0 \<mapsto> initial_componentStatusData (lit ''10:00:00'')], next_ref = 1\<rparr> 0 =
     Some (initial_componentStatusData (lit ''10:00:00'')) \<and>
   0 < next_ref \<lparr>cells = [0 \<mapsto> initial_componentStatusData (lit ''10:00:00'')], next_ref = 1\<rparr> \<and>
   cfg_key \<lparr>cfg_key = Some ''name'', cfg_direction = Desc\<rparr> = Some ''name'' \<and>
   ''name'' \<noteq> [] \<and>
   (let view = sortedComponentStatusData \<lparr>cfg_key = Some ''name'', cfg_direction = Desc\<rparr> 0
                 \<lparr>cells = [0 \<mapsto> initial_componentStatusData (lit ''10:00:00'')], next_ref = 1\<rparr>;
        shown = read_array (snd view) (fst view)
    in cells (snd view) 0 = Some (initial_componentStatusData (lit ''10:00:00'')) \<and>
       mset shown = mset (initial_componentStatusData (lit ''10:00:00'')) \<and>
       sorted_wrt (\<lambda>a b. \<not> js_lt (entry_field ''name'' a) (entry_field ''name'' b)) shown \<and>
       filter (\<lambda>e. entry_field ''name'' e = Some (lit ''Toast Notification'')) shown =
         filter (\<lambda>e. entry_field ''name'' e = Some (lit ''Toast Notification''))
           (initial_componentStatusData (lit ''10:00:00'')) \<and>
       map entry_name shown =
         [lit ''Toast Notification'', lit ''Name Form Modal'', lit ''Banner Notification''])"
proof -
  let ?store = "\<lparr>cells = [0 \<mapsto> initial_componentStatusData (lit ''10:00:00'')], next_ref = 1\<rparr>"
  let ?cfg = "\<lparr>cfg_key = Some ''name'', cfg_direction = Desc\<rparr>"
  have h1: "cells ?store 0 = Some (initial_componentStatusData (lit ''10:00:00''))"
    by simp
  have h2: "0 < next_ref ?store"
    by simp
  have order:
    "map entry_name (read_array (snd (sortedComponentStatusData ?cfg 0 ?store))
                                (fst (sortedComponentStatusData ?cfg 0 ?store))) =
       [lit ''Toast Notification'', lit ''Name Form Modal'', lit ''Banner Notification'']"
    by (simp add: sortedComponentStatusData_def spread_copy_def sort_in_place_def read_array_def
          initial_componentStatusData_def compare_entries_def entry_field_def lit_def)
  from sorted_view [OF h1 h2, of ?cfg "''name''" "Some (lit ''Toast Notification'')"] h1 h2 order
  show ?thesis by (simp add: Let_def)
qed

end
